theory Spec2Isabelle
  imports Complex_Main "HOL-Library.Sublist"
begin

section \<open>JavaScript values at the handlers' boundary\<close>

text \<open>
  The route handlers read untyped JSON (\<^verbatim>\<open>await request.json()\<close>) and test it with
  JavaScript truthiness. A parsed JSON value is a \<open>json\<close>; a property that is absent
  (\<^verbatim>\<open>undefined\<close>) is \<open>None\<close> of \<open>json option\<close>. The members of a parsed object are
  an association list with distinct keys. Numbers are observed by the handlers only
  through truthiness and \<^verbatim>\<open>=== 0\<close>.
\<close>

datatype json =
    JNull
  | JBool bool
  | JNum real
  | JStr string
  | JArr "json list"
  | JObj "(string \<times> json) list"

fun js_truthy :: "json \<Rightarrow> bool" where
  "js_truthy JNull = False"
| "js_truthy (JBool b) = b"
| "js_truthy (JNum n) = (n \<noteq> 0)"
| "js_truthy (JStr s) = (s \<noteq> [])"
| "js_truthy (JArr xs) = True"
| "js_truthy (JObj kvs) = True"

definition truthy :: "json option \<Rightarrow> bool" where
  "truthy v = (case v of None \<Rightarrow> False | Some j \<Rightarrow> js_truthy j)"

text \<open>Truthiness of an optional string (\<^verbatim>\<open>undefined\<close>, \<^verbatim>\<open>null\<close> and \<^verbatim>\<open>""\<close> are falsy).\<close>

definition truthy_str :: "string option \<Rightarrow> bool" where
  "truthy_str v = (case v of None \<Rightarrow> False | Some s \<Rightarrow> s \<noteq> [])"

text \<open>\<^verbatim>\<open>a || b\<close> for an optional string \<open>a\<close> and a string \<open>b\<close>.\<close>

definition or_else :: "string option \<Rightarrow> string \<Rightarrow> string" where
  "or_else a b = (case a of None \<Rightarrow> b | Some s \<Rightarrow> if s = [] then b else s)"

text \<open>
  A thrown value: an \<^verbatim>\<open>Error\<close> object (of any subclass) with its message, or anything
  else. A remote call that may reject yields \<open>Inl\<close> of the thrown value.
\<close>

datatype thrown = Error string | NonError

type_synonym 'a result = "thrown + 'a"

text \<open>\<^verbatim>\<open>error instanceof Error ? error.message : dflt\<close>\<close>

definition catch_message :: "thrown \<Rightarrow> string \<Rightarrow> string" where
  "catch_message e dflt = (case e of Error m \<Rightarrow> m | NonError \<Rightarrow> dflt)"

section \<open>Responses and the trace of external effects\<close>

datatype 'a body = ErrorBody string | Success 'a

record 'a response =
  status :: nat
  headers :: "(string \<times> string) list"
  body :: "'a body"

text \<open>\<^verbatim>\<open>NextResponse.json({ error: msg }, { status: st })\<close>\<close>

definition json_error :: "string \<Rightarrow> nat \<Rightarrow> 'a response" where
  "json_error msg st = \<lparr>status = st, headers = [], body = ErrorBody msg\<rparr>"

text \<open>\<^verbatim>\<open>NextResponse.json(payload)\<close>: the status defaults to 200.\<close>

definition json_ok :: "'a \<Rightarrow> 'a response" where
  "json_ok payload = \<lparr>status = 200, headers = [], body = Success payload\<rparr>"

text \<open>The SDK's \<^verbatim>\<open>File\<close>, with the fields the upload handler reads.\<close>

record rpc_status =
  st_message :: "string option"

record gfile =
  f_name :: "string option"
  f_displayName :: "string option"
  f_mimeType :: "string option"
  f_sizeBytes :: "string option"
  f_uri :: "string option"
  f_state :: "string option"
  f_error :: "rpc_status option"

text \<open>
  The SDK's long-running \<^verbatim>\<open>Operation\<close>. Its \<^verbatim>\<open>error\<close> is tested by the import
  handler both as a string and as an object; \<open>ErrObj m j\<close> is an object whose
  \<^verbatim>\<open>message\<close> property is \<open>m\<close> and whose \<^verbatim>\<open>JSON.stringify\<close> text is \<open>j\<close>.
\<close>

datatype op_error = ErrStr string | ErrObj "string option" string

record operation =
  op_name :: "string option"
  op_done :: "bool option"
  op_error :: "op_error option"
  op_response :: "json option"

text \<open>
  What \<^verbatim>\<open>ai.models.generateContent\<close> answers, with the fields the query handler reads:
  the text, and the grounding chunks of each candidate.
\<close>

record uri_holder =
  uri :: "string option"

record chunk =
  ch_web :: "uri_holder option"
  ch_retrievedContext :: "uri_holder option"
  ch_confidenceScore :: "real option"

record grounding_metadata =
  gm_groundingChunks :: "chunk list option"

record candidate =
  c_groundingMetadata :: "grounding_metadata option"

record gen_result =
  g_text :: "string option"
  g_candidates :: "candidate list option"

text \<open>
  The slide content that \<^verbatim>\<open>generateSlideContentFromQuery\<close> returns after its own
  validation: a title and the array of slides, both still untyped JSON.
\<close>

record slide_data =
  sd_title :: json
  sd_slides :: "json list"

text \<open>
  Every call to an external service and every delay, in program order. A call event
  carries its arguments and what the service answered. Console logging is not traced.
\<close>

datatype event =
    Sleep nat
  | FilesUpload "nat list" string string string "gfile result"
  | FilesGet string "gfile result"
  | FilesDelete string "unit result"
  | StoresDelete string bool "unit result"
  | ImportFile string json "operation result"
  | OperationsGet operation "operation result"
  | GenerateContent json "json list" "gen_result result"
  | SlideContentFromQuery json "json list" "string + slide_data"
  | CreateGoogleSlides slide_data "string + string"

type_synonym 'a traced = "'a \<times> event list"

text \<open>Prefix the events that happened before the rest of a computation.\<close>

definition emit :: "event list \<Rightarrow> 'a traced \<Rightarrow> 'a traced" where
  "emit evs r = (fst r, evs @ snd r)"

text \<open>
  The \<^verbatim>\<open>try { ... } catch (error) { return 500 }\<close> that wraps every handler body:
  a body that throws is answered with status 500 and the thrown error's message.
\<close>

definition catch :: "string \<Rightarrow> ('a response) result traced \<Rightarrow> 'a response traced" where
  "catch dflt r =
     (case fst r of
        Inl e \<Rightarrow> (json_error (catch_message e dflt) 500, snd r)
      | Inr resp \<Rightarrow> (resp, snd r))"

section \<open>Upload: \<^verbatim>\<open>src/app/api/upload/route.ts\<close>\<close>

definition maxAttempts :: nat where
  "maxAttempts = 30"

record file_info =
  fi_name :: "string option"
  fi_uri :: "string option"
  fi_mimeType :: "string option"
  fi_sizeBytes :: "string option"
  fi_displayName :: "string option"

definition info_of :: "gfile \<Rightarrow> file_info" where
  "info_of f = \<lparr>fi_name = f_name f, fi_uri = f_uri f, fi_mimeType = f_mimeType f,
     fi_sizeBytes = f_sizeBytes f, fi_displayName = f_displayName f\<rparr>"

text \<open>\<^verbatim>\<open>currentFile.error?.message || "File processing failed"\<close> (line 51).\<close>

definition file_failure :: "gfile \<Rightarrow> string" where
  "file_failure f =
     or_else (case f_error f of None \<Rightarrow> None | Some err \<Rightarrow> st_message err)
       ''File processing failed''"

text \<open>How a loop is left: by a throw, by a \<^verbatim>\<open>return\<close> inside it, or by its condition.\<close>

datatype ('r, 'a) loop_exit = Throw thrown | Return 'r | Fallthrough 'a

text \<open>
  The polling loop of the upload handler (lines 39--56). \<open>get k\<close> is what the
  \<open>k\<close>-th call (counted from 0) of \<^verbatim>\<open>ai.files.get\<close> in this session answers;
  \<open>attempts\<close> is the loop's counter, which is also the number of calls made so far.
\<close>

function upload_poll ::
  "(nat \<Rightarrow> gfile result) \<Rightarrow> gfile \<Rightarrow> nat \<Rightarrow> (file_info response, gfile) loop_exit traced" where
  "upload_poll get currentFile attempts =
     (if f_state currentFile = Some ''PROCESSING'' \<and> attempts < maxAttempts then
        emit [Sleep 1000]
          (case f_name currentFile of
             None \<Rightarrow> (Throw (Error ''File name not found''), [])
           | Some fileName \<Rightarrow>
               if fileName = [] then (Throw (Error ''File name not found''), [])
               else
                 emit [FilesGet fileName (get attempts)]
                   (case get attempts of
                      Inl e \<Rightarrow> (Throw e, [])
                    | Inr refreshed \<Rightarrow>
                        if f_state refreshed = Some ''FAILED'' then
                          (Return (json_error (file_failure refreshed) 500), [])
                        else upload_poll get refreshed (attempts + 1)))
      else (Fallthrough currentFile, []))"
  by pat_completeness auto
termination
  by (relation "measure (\<lambda>(get, currentFile, attempts). maxAttempts - attempts)") auto

text \<open>
  After the loop (lines 58--76): a throw goes to the handler's \<^verbatim>\<open>catch\<close>, a
  \<^verbatim>\<open>return\<close> inside the loop is the response, and a file that is not
  \<^verbatim>\<open>ACTIVE\<close> is answered with the timeout message.
\<close>

definition upload_finish ::
  "(file_info response, gfile) loop_exit \<Rightarrow> (file_info response) result" where
  "upload_finish x =
     (case x of
        Throw e \<Rightarrow> Inl e
      | Return r \<Rightarrow> Inr r
      | Fallthrough currentFile \<Rightarrow>
          if f_state currentFile \<noteq> Some ''ACTIVE'' then
            Inr (json_error ''File processing timeout'' 500)
          else Inr (json_ok (info_of currentFile)))"

text \<open>The poll session of an uploaded file (lines 34--76): the loop from 0 attempts, then the code after it.\<close>

definition upload_session ::
  "(nat \<Rightarrow> gfile result) \<Rightarrow> gfile \<Rightarrow> (file_info response) result traced" where
  "upload_session get fileData =
     (upload_finish (fst (upload_poll get fileData 0)), snd (upload_poll get fileData 0))"

text \<open>
  The value of the \<^verbatim>\<open>file\<close> entry of the request's form data: a file or a string.
\<close>

record upfile =
  uf_name :: string
  uf_type :: string
  uf_bytes :: "nat list"

datatype form_entry = FormFile upfile | FormText string

text \<open>
  The call of \<^verbatim>\<open>ai.files.upload\<close> (lines 16--30): the blob's bytes and type, the
  display name and the MIME type, with \<^verbatim>\<open>file.type || "application/octet-stream"\<close>.
\<close>

definition upload_call :: "upfile \<Rightarrow> gfile result \<Rightarrow> event" where
  "upload_call file answer =
     FilesUpload (uf_bytes file)
       (if uf_type file = [] then ''application/octet-stream'' else uf_type file)
       (uf_name file)
       (if uf_type file = [] then ''application/octet-stream'' else uf_type file)
       answer"

text \<open>
  The handler. \<open>formData\<close> is what \<^verbatim>\<open>request.formData()\<close> followed by
  \<^verbatim>\<open>get("file")\<close> gives (or what it throws); \<open>upload\<close> is the answer of
  \<^verbatim>\<open>ai.files.upload\<close>. A non-empty string entry is truthy and has no
  \<^verbatim>\<open>arrayBuffer\<close> method, so the call throws a \<^verbatim>\<open>TypeError\<close>.
\<close>

definition upload_POST ::
  "form_entry option result \<Rightarrow> gfile result \<Rightarrow> (nat \<Rightarrow> gfile result) \<Rightarrow>
     file_info response traced" where
  "upload_POST formData upload get =
     catch ''Failed to upload file''
       (case formData of
          Inl e \<Rightarrow> (Inl e, [])
        | Inr None \<Rightarrow> (Inr (json_error ''No file provided'' 400), [])
        | Inr (Some (FormText s)) \<Rightarrow>
            if s = [] then (Inr (json_error ''No file provided'' 400), [])
            else (Inl (Error ''file.arrayBuffer is not a function''), [])
        | Inr (Some (FormFile file)) \<Rightarrow>
            emit [upload_call file upload]
              (case upload of
                 Inl e \<Rightarrow> (Inl e, [])
               | Inr fileData \<Rightarrow> upload_session get fileData))"


section \<open>Store import: \<^verbatim>\<open>src/app/api/file-search-stores/[storeName]/import/route.ts\<close>\<close>

text \<open>\<^verbatim>\<open>s.includes(sub)\<close> on strings: \<open>sub\<close> occurs in \<open>s\<close> as a contiguous block.\<close>

definition str_includes :: "string \<Rightarrow> string \<Rightarrow> bool" where
  "str_includes s sub = sublist sub s"

text \<open>
  \<^verbatim>\<open>fileUri.match(/files\/[^/]+/)\<close>, the regular expression without the global flag:
  the leftmost position at which the literal \<^verbatim>\<open>files/\<close> is followed by at least one
  character other than \<^verbatim>\<open>/\<close>, and there the longest such run (\<^verbatim>\<open>+\<close> is greedy).
  \<open>match_here\<close> tries the start of its argument; \<open>match_files\<close> is \<^verbatim>\<open>match[0]\<close>, or
  \<open>None\<close> for \<^verbatim>\<open>null\<close>.
\<close>

definition match_here :: "string \<Rightarrow> string option" where
  "match_here s =
     (let seg = takeWhile (\<lambda>c. c \<noteq> CHR ''/'') (drop 6 s) in
        if prefix ''files/'' s \<and> seg \<noteq> [] then Some (''files/'' @ seg) else None)"

fun match_files :: "string \<Rightarrow> string option" where
  "match_files [] = None"
| "match_files (c # cs) =
     (case match_here (c # cs) of Some m \<Rightarrow> Some m | None \<Rightarrow> match_files cs)"

text \<open>Lines 21--27 on a string \<^verbatim>\<open>fileUri\<close>.\<close>

definition fileName_of :: "string \<Rightarrow> string" where
  "fileName_of fileUri =
     (if str_includes fileUri ''/files/'' then
        (case match_files fileUri of Some m \<Rightarrow> m | None \<Rightarrow> fileUri)
      else fileUri)"

text \<open>
  Lines 21--27 on any truthy JSON value. An array has \<^verbatim>\<open>includes\<close> (membership) but
  no \<^verbatim>\<open>match\<close>; a number, \<^verbatim>\<open>true\<close> or an object has no \<^verbatim>\<open>includes\<close>: the call
  throws a \<^verbatim>\<open>TypeError\<close>.
\<close>

definition import_fileName :: "json \<Rightarrow> json result" where
  "import_fileName fileUri =
     (case fileUri of
        JStr s \<Rightarrow> Inr (JStr (fileName_of s))
      | JArr xs \<Rightarrow>
          if JStr ''/files/'' \<in> set xs then Inl (Error ''fileUri.match is not a function'')
          else Inr (JArr xs)
      | _ \<Rightarrow> Inl (Error ''fileUri.includes is not a function''))"

text \<open>
  Lines 57--64: whether \<^verbatim>\<open>current.error\<close> is truthy (an empty string is not, an
  object is), and the message of the \<^verbatim>\<open>Error\<close> thrown when it is.
\<close>

definition errorMessage :: "op_error \<Rightarrow> string" where
  "errorMessage e =
     (case e of
        ErrStr s \<Rightarrow> s
      | ErrObj m j \<Rightarrow> or_else m (if j = [] then ''Operation failed'' else j))"

definition import_failure :: "operation \<Rightarrow> string option" where
  "import_failure current =
     (case op_error current of
        None \<Rightarrow> None
      | Some (ErrStr s) \<Rightarrow> if s = [] then None else Some (errorMessage (ErrStr s))
      | Some (ErrObj m j) \<Rightarrow> Some (errorMessage (ErrObj m j)))"

text \<open>
  The polling loop of the import handler (lines 49--66). \<open>get k\<close> is what the \<open>k\<close>-th
  call (counted from 0) of \<^verbatim>\<open>ai.operations.get\<close> answers. The loop is left by a throw
  or by its condition.
\<close>

function import_poll ::
  "(nat \<Rightarrow> operation result) \<Rightarrow> operation \<Rightarrow> nat \<Rightarrow> operation result traced" where
  "import_poll get current attempts =
     (if op_done current \<noteq> Some True \<and> attempts < maxAttempts then
        emit [Sleep 5000, OperationsGet current (get attempts)]
          (case get attempts of
             Inl e \<Rightarrow> (Inl e, [])
           | Inr refreshed \<Rightarrow>
               (case import_failure refreshed of
                  Some msg \<Rightarrow> (Inl (Error msg), [])
                | None \<Rightarrow> import_poll get refreshed (attempts + 1)))
      else (Inr current, []))"
  by pat_completeness auto
termination
  by (relation "measure (\<lambda>(get, current, attempts). maxAttempts - attempts)") auto

record import_ok =
  io_importedFile :: "json option"
  io_operationName :: "string option"

text \<open>
  After the loop (lines 68--76): an operation that is still not done throws the timeout
  error; a done one is the success response.
\<close>

definition import_finish :: "operation result \<Rightarrow> (import_ok response) result" where
  "import_finish x =
     (case x of
        Inl e \<Rightarrow> Inl e
      | Inr current \<Rightarrow>
          if op_done current \<noteq> Some True then Inl (Error ''Import timeout'')
          else Inr (json_ok \<lparr>io_importedFile = op_response current,
                 io_operationName = op_name current\<rparr>))"

text \<open>The poll session of an import operation (lines 44--76).\<close>

definition import_session ::
  "(nat \<Rightarrow> operation result) \<Rightarrow> operation \<Rightarrow> (import_ok response) result traced" where
  "import_session get operation =
     (import_finish (fst (import_poll get operation 0)), snd (import_poll get operation 0))"

text \<open>
  \<^verbatim>\<open>const { fileUri } = await request.json()\<close> (line 11), as for the query handler.
\<close>

definition destructure_import :: "json result \<Rightarrow> json option result" where
  "destructure_import answered =
     (case answered of
        Inl e \<Rightarrow> Inl e
      | Inr JNull \<Rightarrow>
          Inl (Error ''Cannot destructure property 'fileUri' of '(intermediate value)' as it is null.'')
      | Inr (JObj kvs) \<Rightarrow> Inr (map_of kvs ''fileUri'')
      | Inr v \<Rightarrow> Inr None)"

text \<open>
  The handler. \<open>parsed\<close> is the \<^verbatim>\<open>fileUri\<close> member of the parsed request body (or what
  parsing or destructuring throws), \<open>storeName\<close> the route parameter, \<open>importFile\<close> the
  answer of \<^verbatim>\<open>ai.fileSearchStores.importFile\<close>. The built-in
  \<^verbatim>\<open>decodeURIComponent\<close> is a parameter: it returns the decoded string or throws a
  \<^verbatim>\<open>URIError\<close>.
\<close>

definition import_POST ::
  "(string \<Rightarrow> string result) \<Rightarrow> json option result \<Rightarrow> string \<Rightarrow> operation result \<Rightarrow>
     (nat \<Rightarrow> operation result) \<Rightarrow> import_ok response traced" where
  "import_POST decodeURIComponent parsed storeName importFile get =
     catch ''Failed to import''
       (case parsed of
          Inl e \<Rightarrow> (Inl e, [])
        | Inr None \<Rightarrow> (Inr (json_error ''fileUri is required'' 400), [])
        | Inr (Some fileUri) \<Rightarrow>
            if \<not> js_truthy fileUri then (Inr (json_error ''fileUri is required'' 400), [])
            else
              (case import_fileName fileUri of
                 Inl e \<Rightarrow> (Inl e, [])
               | Inr fileName \<Rightarrow>
                   (case decodeURIComponent storeName of
                      Inl e \<Rightarrow> (Inl e, [])
                    | Inr decodedStoreName \<Rightarrow>
                        emit [ImportFile decodedStoreName fileName importFile]
                          (case importFile of
                             Inl e \<Rightarrow> (Inl e, [])
                           | Inr operation \<Rightarrow> import_session get operation))))"

section \<open>Deleting files and stores\<close>

text \<open>
  \<^verbatim>\<open>DELETE\<close> of \<^verbatim>\<open>src/app/api/files/route.ts\<close>. \<open>name\<close> is
  \<^verbatim>\<open>searchParams.get("name")\<close> (\<open>None\<close> for \<^verbatim>\<open>null\<close>), \<open>del\<close> the answer of
  \<^verbatim>\<open>ai.files.delete\<close>.
\<close>

definition files_DELETE :: "string option \<Rightarrow> unit result \<Rightarrow> string response traced" where
  "files_DELETE name del =
     catch ''Failed to delete file''
       (case name of
          None \<Rightarrow> (Inr (json_error ''File name is required'' 400), [])
        | Some fileName \<Rightarrow>
            if fileName = [] then (Inr (json_error ''File name is required'' 400), [])
            else
              emit [FilesDelete fileName del]
                (case del of
                   Inl e \<Rightarrow> (Inl e, [])
                 | Inr u \<Rightarrow> (Inr (json_ok ''File deleted successfully''), [])))"

text \<open>The store handler's \<^verbatim>\<open>DELETE\<close>, with the \<^verbatim>\<open>force\<close> query parameter.\<close>

definition stores_DELETE ::
  "string option \<Rightarrow> string option \<Rightarrow> unit result \<Rightarrow> string response traced" where
  "stores_DELETE name forceParam del =
     catch ''Failed to delete store''
       (let force = (forceParam = Some ''true'') in
        case name of
          None \<Rightarrow> (Inr (json_error ''Store name is required'' 400), [])
        | Some storeName \<Rightarrow>
            if storeName = [] then (Inr (json_error ''Store name is required'' 400), [])
            else
              emit [StoresDelete storeName force del]
                (case del of
                   Inl e \<Rightarrow> (Inl e, [])
                 | Inr u \<Rightarrow> (Inr (json_ok ''File Search Store deleted successfully''), [])))"

section \<open>Query\<close>

text \<open>
  The property \<^verbatim>\<open>length\<close> of a truthy JSON value: strings and arrays have one, an
  object has the member of that name if any, numbers and booleans have none.
\<close>

definition js_length :: "json \<Rightarrow> json option" where
  "js_length v =
     (case v of
        JStr s \<Rightarrow> Some (JNum (real (length s)))
      | JArr xs \<Rightarrow> Some (JNum (real (length xs)))
      | JObj kvs \<Rightarrow> map_of kvs ''length''
      | _ \<Rightarrow> None)"

record citation =
  segment :: string
  confidenceScore :: "real option"

text \<open>\<^verbatim>\<open>chunk.web?.uri || chunk.retrievedContext?.uri || ""\<close> and the score (lines 280--283).\<close>

definition opt_uri :: "uri_holder option \<Rightarrow> string option" where
  "opt_uri h = (case h of None \<Rightarrow> None | Some w \<Rightarrow> uri w)"

definition cite :: "chunk \<Rightarrow> citation" where
  "cite c =
     \<lparr>segment = or_else (opt_uri (ch_web c)) (or_else (opt_uri (ch_retrievedContext c)) []),
      confidenceScore = ch_confidenceScore c\<rparr>"

text \<open>Lines 272--284: the grounding chunks of the first candidate, if there are any.\<close>

definition first_chunks :: "gen_result \<Rightarrow> chunk list option" where
  "first_chunks result =
     (let candidates = (case g_candidates result of None \<Rightarrow> [] | Some cs \<Rightarrow> cs);
          groundingMetadata =
            (case candidates of [] \<Rightarrow> None | c # rest \<Rightarrow> c_groundingMetadata c)
      in case groundingMetadata of None \<Rightarrow> None | Some gm \<Rightarrow> gm_groundingChunks gm)"

definition citations_of :: "gen_result \<Rightarrow> citation list" where
  "citations_of result =
     (case first_chunks result of None \<Rightarrow> [] | Some chunks \<Rightarrow> map cite chunks)"

record slides_info =
  presentationId :: string
  presentationUrl :: string
  slideCount :: nat
  title :: json
  preview :: "json list"

record query_ok =
  answer :: string
  citations :: "citation list"
  slides :: "slides_info option"

record query_body =
  q_query :: "json option"
  q_fileSearchStoreNames :: "json option"
  q_createSlides :: "json option"

text \<open>
  \<^verbatim>\<open>const { query, fileSearchStoreNames, createSlides } = await request.json()\<close>
  (line 200): \<open>answered\<close> is what \<^verbatim>\<open>request.json()\<close> resolves to, or the error it rejects
  with (a body that is empty or no JSON). Destructuring \<^verbatim>\<open>null\<close> throws a
  \<^verbatim>\<open>TypeError\<close>; an object gives its members; any other value has none of them.
\<close>

definition member :: "json \<Rightarrow> string \<Rightarrow> json option" where
  "member v k = (case v of JObj kvs \<Rightarrow> map_of kvs k | other \<Rightarrow> None)"

definition destructure_query :: "json result \<Rightarrow> query_body result" where
  "destructure_query answered =
     (case answered of
        Inl e \<Rightarrow> Inl e
      | Inr JNull \<Rightarrow>
          Inl (Error ''Cannot destructure property 'query' of '(intermediate value)' as it is null.'')
      | Inr v \<Rightarrow>
          Inr \<lparr>q_query = member v ''query'',
               q_fileSearchStoreNames = member v ''fileSearchStoreNames'',
               q_createSlides = member v ''createSlides''\<rparr>)"

record env =
  GEMINI_API_KEY :: "string option"
  GOOGLE_APPLICATION_CREDENTIALS :: "string option"

text \<open>
  The query handler (\<^verbatim>\<open>POST\<close>, lines 198--366), with lines 213--215
  (\<^verbatim>\<open>Array.isArray(x) ? x : [x]\<close>) as \<open>storeNames_of\<close>. \<open>parsed\<close> holds the three members
  destructured from the parsed request body (or what parsing or destructuring throws);
  \<open>generateContent\<close> is the answer of the retrieval call. The event of that call
  records the query value the prompt is built from and the store names; the prompt is
  built (line 220) before the call, and a query that cannot be converted to a string
  throws there.

  The helpers \<^verbatim>\<open>generateSlideContentFromQuery\<close> and \<^verbatim>\<open>createGoogleSlides\<close> only
  talk to external services and rethrow whatever fails as a fresh \<^verbatim>\<open>Error\<close>; the
  outcome of each (\<open>Inl\<close> the message of that error) is an input here.
\<close>

text \<open>
  Line 220 builds the prompt with the template literal \<^verbatim>\<open>`${query}...`\<close>, which converts
  the query to a string. For a parsed JSON value the conversion throws a \<^verbatim>\<open>TypeError\<close>
  exactly when it meets an object with a member named \<^verbatim>\<open>toString\<close> (the member
  shadows \<^verbatim>\<open>Object.prototype.toString\<close> and is no function): the value itself, or an
  element of an array, which is converted by joining its elements.
\<close>

fun template_throws :: "json \<Rightarrow> bool" where
  "template_throws (JObj kvs) = (''toString'' \<in> fst ` set kvs)"
| "template_throws (JArr xs) = (\<exists>x \<in> set xs. template_throws x)"
| "template_throws v = False"

definition storeNames_of :: "json \<Rightarrow> json list" where
  "storeNames_of fileSearchStoreNames =
     (case fileSearchStoreNames of JArr xs \<Rightarrow> xs | other \<Rightarrow> [fileSearchStoreNames])"

text \<open>
  Lines 260--359: what the handler does with the result of the retrieval call. The
  success response is sent with the header \<^verbatim>\<open>Cache-Control: no-store\<close>.
\<close>

definition query_success :: "query_ok \<Rightarrow> query_ok response" where
  "query_success payload =
     \<lparr>status = 200, headers = [(''Cache-Control'', ''no-store'')], body = Success payload\<rparr>"

definition query_respond ::
  "env \<Rightarrow> json option \<Rightarrow> json \<Rightarrow> json list \<Rightarrow> gen_result \<Rightarrow> string + slide_data \<Rightarrow>
     string + string \<Rightarrow> (query_ok response) result traced" where
  "query_respond environment createSlides query storeNames result slideContent createSlidesResult =
     (case g_text result of
        None \<Rightarrow> (Inr (json_error ''No response from Gemini'' 500), [])
      | Some text \<Rightarrow>
          if text = [] then (Inr (json_error ''No response from Gemini'' 500), [])
          else if truthy createSlides then
            (if \<not> truthy_str (GEMINI_API_KEY environment) then
               (Inr (json_error ''GEMINI_API_KEY environment variable missing'' 500), [])
             else if \<not> truthy_str (GOOGLE_APPLICATION_CREDENTIALS environment) then
               (Inr (json_error ''GOOGLE_APPLICATION_CREDENTIALS environment variable missing'' 500),
                [])
             else
               emit [SlideContentFromQuery query storeNames slideContent]
                 (case slideContent of
                    Inl m \<Rightarrow> (Inl (Error m), [])
                  | Inr slideData \<Rightarrow>
                      emit [CreateGoogleSlides slideData createSlidesResult]
                        (case createSlidesResult of
                           Inl m \<Rightarrow> (Inl (Error m), [])
                         | Inr pid \<Rightarrow>
                             (Inr (query_success
                                \<lparr>answer = text, citations = citations_of result,
                                 slides = Some
                                   \<lparr>presentationId = pid,
                                    presentationUrl =
                                      ''https://docs.google.com/presentation/d/'' @ pid @ ''/edit'',
                                    slideCount = length (sd_slides slideData),
                                    title = sd_title slideData,
                                    preview = take 2 (sd_slides slideData)\<rparr>\<rparr>), []))))
          else
            (Inr (query_success
               \<lparr>answer = text, citations = citations_of result, slides = None\<rparr>), []))"

definition query_POST ::
  "env \<Rightarrow> query_body result \<Rightarrow> gen_result result \<Rightarrow> string + slide_data \<Rightarrow> string + string \<Rightarrow>
     query_ok response traced" where
  "query_POST environment parsed generateContent slideContent createSlidesResult =
     catch ''Failed to process query''
       (case parsed of
          Inl e \<Rightarrow> (Inl e, [])
        | Inr b \<Rightarrow>
            (case q_query b of
               None \<Rightarrow> (Inr (json_error ''Query is required'' 400), [])
             | Some query \<Rightarrow>
                 if \<not> js_truthy query then (Inr (json_error ''Query is required'' 400), [])
                 else
                   (case q_fileSearchStoreNames b of
                      None \<Rightarrow>
                        (Inr (json_error ''At least one fileSearchStoreName is required'' 400), [])
                    | Some fileSearchStoreNames \<Rightarrow>
                        if \<not> js_truthy fileSearchStoreNames
                           \<or> js_length fileSearchStoreNames = Some (JNum 0)
                        then
                          (Inr (json_error ''At least one fileSearchStoreName is required'' 400), [])
                        else if template_throws query then
                          (Inl (Error ''Cannot convert object to primitive value''), [])
                        else
                          emit [GenerateContent query (storeNames_of fileSearchStoreNames)
                                  generateContent]
                            (case generateContent of
                               Inl e \<Rightarrow> (Inl e, [])
                             | Inr result \<Rightarrow>
                                 query_respond environment (q_createSlides b) query
                                   (storeNames_of fileSearchStoreNames) result slideContent
                                   createSlidesResult))))"

section \<open>Observations on traces\<close>

fun is_refresh :: "event \<Rightarrow> bool" where
  "is_refresh (FilesGet n r) = True"
| "is_refresh (OperationsGet c r) = True"
| "is_refresh e = False"

fun is_delay :: "event \<Rightarrow> bool" where
  "is_delay (Sleep d) = True"
| "is_delay e = False"

text \<open>The delays and refresh calls of a trace, in order.\<close>

definition polling :: "event list \<Rightarrow> event list" where
  "polling tr = filter (\<lambda>e. is_delay e \<or> is_refresh e) tr"

definition refresh_count :: "event list \<Rightarrow> nat" where
  "refresh_count tr = length (filter is_refresh tr)"

text \<open>
  A trace of polling in which every refresh call comes right after a delay of \<open>d\<close>
  milliseconds: delay, refresh, delay, refresh, ... (a last delay may have no refresh
  after it, when the iteration throws before the call).
\<close>

fun paced :: "nat \<Rightarrow> event list \<Rightarrow> bool" where
  "paced d [] = True"
| "paced d [e] = (e = Sleep d)"
| "paced d (e # r # rest) = (e = Sleep d \<and> is_refresh r \<and> paced d rest)"

text \<open>The file or operation that a call of the remote service answered with.\<close>

fun observed_file :: "event \<Rightarrow> gfile option" where
  "observed_file (FilesUpload b t d m (Inr f)) = Some f"
| "observed_file (FilesGet n (Inr f)) = Some f"
| "observed_file e = None"

fun observed_operation :: "event \<Rightarrow> operation option" where
  "observed_operation (ImportFile s n (Inr c)) = Some c"
| "observed_operation (OperationsGet c (Inr d)) = Some d"
| "observed_operation e = None"

text \<open>The last file, or operation, that the remote service answered with in a trace.\<close>

fun last_file :: "event list \<Rightarrow> gfile option" where
  "last_file [] = None"
| "last_file (e # es) = (case last_file es of Some g \<Rightarrow> Some g | None \<Rightarrow> observed_file e)"

fun last_operation :: "event list \<Rightarrow> operation option" where
  "last_operation [] = None"
| "last_operation (e # es) =
     (case last_operation es of Some d \<Rightarrow> Some d | None \<Rightarrow> observed_operation e)"

text \<open>The file, or operation, a session holds after a trace: the last one read, or the initial one.\<close>

definition current_file :: "gfile \<Rightarrow> event list \<Rightarrow> gfile" where
  "current_file f tr = (case last_file tr of Some g \<Rightarrow> g | None \<Rightarrow> f)"

definition current_operation :: "operation \<Rightarrow> event list \<Rightarrow> operation" where
  "current_operation c tr = (case last_operation tr of Some d \<Rightarrow> d | None \<Rightarrow> c)"

section \<open>Example sessions\<close>

text \<open>Concrete files, operations and remote behaviours on which the theorems are instantiated.\<close>

definition ex_upfile :: upfile where
  "ex_upfile = \<lparr>uf_name = ''notes.txt'', uf_type = ''text/plain'', uf_bytes = [104, 105]\<rparr>"

definition ex_processing :: gfile where
  "ex_processing = \<lparr>f_name = Some ''files/abc'', f_displayName = Some ''notes.txt'',
     f_mimeType = Some ''text/plain'', f_sizeBytes = Some ''2'', f_uri = Some ''https://host/files/abc'',
     f_state = Some ''PROCESSING'', f_error = None\<rparr>"

definition ex_active :: gfile where
  "ex_active = ex_processing\<lparr>f_state := Some ''ACTIVE''\<rparr>"

definition ex_failed :: gfile where
  "ex_failed = ex_processing\<lparr>f_state := Some ''FAILED'',
     f_error := Some \<lparr>st_message = Some ''quota exceeded''\<rparr>\<rparr>"

definition ex_nameless :: gfile where
  "ex_nameless = ex_processing\<lparr>f_name := None\<rparr>"

definition ex_failed_like_timeout :: gfile where
  "ex_failed_like_timeout = ex_processing\<lparr>f_state := Some ''FAILED'',
     f_error := Some \<lparr>st_message = Some ''File processing timeout''\<rparr>\<rparr>"

text \<open>Remote behaviours of \<^verbatim>\<open>ai.files.get\<close>: the same answer to every call.\<close>

definition get_processing :: "nat \<Rightarrow> gfile result" where
  "get_processing k = Inr ex_processing"

definition get_active :: "nat \<Rightarrow> gfile result" where
  "get_active k = Inr ex_active"


definition get_failed :: "nat \<Rightarrow> gfile result" where
  "get_failed k = Inr ex_failed"

definition get_nameless :: "nat \<Rightarrow> gfile result" where
  "get_nameless k = Inr ex_nameless"

definition get_failed_like_timeout :: "nat \<Rightarrow> gfile result" where
  "get_failed_like_timeout k = Inr ex_failed_like_timeout"

definition ex_pending :: operation where
  "ex_pending = \<lparr>op_name = Some ''operations/op1'', op_done = None, op_error = None,
     op_response = None\<rparr>"

definition ex_done :: operation where
  "ex_done = ex_pending\<lparr>op_done := Some True, op_response := Some (JStr ''imported'')\<rparr>"

definition ex_op_failed :: operation where
  "ex_op_failed = ex_pending\<lparr>op_done := Some True,
     op_error := Some (ErrObj (Some ''quota exceeded'') ''{}'')\<rparr>"

definition ex_op_failed_like_timeout :: operation where
  "ex_op_failed_like_timeout = ex_pending\<lparr>op_done := Some True,
     op_error := Some (ErrObj (Some ''Import timeout'') ''{}'')\<rparr>"

definition ex_op_failed_undone :: operation where
  "ex_op_failed_undone = ex_pending\<lparr>op_error := Some (ErrStr ''quota exceeded'')\<rparr>"

definition ops_pending :: "nat \<Rightarrow> operation result" where
  "ops_pending k = Inr ex_pending"

definition ops_done :: "nat \<Rightarrow> operation result" where
  "ops_done k = Inr ex_done"


definition ops_failed :: "nat \<Rightarrow> operation result" where
  "ops_failed k = Inr ex_op_failed"

definition ops_failed_like_timeout :: "nat \<Rightarrow> operation result" where
  "ops_failed_like_timeout k = Inr ex_op_failed_like_timeout"

definition ops_failed_undone :: "nat \<Rightarrow> operation result" where
  "ops_failed_undone k = Inr ex_op_failed_undone"

text \<open>A \<^verbatim>\<open>decodeURIComponent\<close> that finds nothing to decode.\<close>

definition decode_plain :: "string \<Rightarrow> string result" where
  "decode_plain s = Inr s"

text \<open>A query request and an answer of the retrieval service with two grounding chunks.\<close>

definition ex_env :: env where
  "ex_env = \<lparr>GEMINI_API_KEY = Some ''key'', GOOGLE_APPLICATION_CREDENTIALS = None\<rparr>"

definition ex_query :: query_body where
  "ex_query = \<lparr>q_query = Some (JStr ''What is in the notes?''),
     q_fileSearchStoreNames = Some (JStr ''stores/s1''), q_createSlides = None\<rparr>"

definition ex_chunk_web :: chunk where
  "ex_chunk_web = \<lparr>ch_web = Some \<lparr>uri = Some ''https://example.org/a''\<rparr>,
     ch_retrievedContext = Some \<lparr>uri = Some ''stores/s1/doc1''\<rparr>, ch_confidenceScore = Some 1\<rparr>"

definition ex_chunk_retrieved :: chunk where
  "ex_chunk_retrieved = \<lparr>ch_web = None,
     ch_retrievedContext = Some \<lparr>uri = Some ''stores/s1/doc2''\<rparr>, ch_confidenceScore = None\<rparr>"

definition ex_result :: gen_result where
  "ex_result = \<lparr>g_text = Some ''The notes say hi.'',
     g_candidates = Some [\<lparr>c_groundingMetadata =
       Some \<lparr>gm_groundingChunks = Some [ex_chunk_web, ex_chunk_retrieved]\<rparr>\<rparr>]\<rparr>"

definition ex_result_ungrounded :: gen_result where
  "ex_result_ungrounded = \<lparr>g_text = Some ''No sources.'',
     g_candidates = Some [\<lparr>c_groundingMetadata = None\<rparr>]\<rparr>"

text \<open>A query that is an object with a \<^verbatim>\<open>toString\<close> member, and a request without a query.\<close>

definition ex_query_unprintable :: query_body where
  "ex_query_unprintable = ex_query\<lparr>q_query := Some (JObj [(''toString'', JNum 1)])\<rparr>"

definition ex_query_missing :: query_body where
  "ex_query_missing = ex_query\<lparr>q_query := None\<rparr>"

section \<open>The pattern of the import handler, in the claim's words\<close>

text \<open>
  Written from the claim, to be compared with \<open>match_files\<close>: \<open>m\<close> is a match of the
  pattern \<^verbatim>\<open>files/<non-slash segment>\<close> at position \<open>i\<close> of \<open>u\<close> when \<open>m\<close> is
  \<^verbatim>\<open>files/\<close> followed by a non-empty segment without \<^verbatim>\<open>/\<close>, \<open>m\<close> stands at position
  \<open>i\<close>, and the segment runs up to the next \<^verbatim>\<open>/\<close> or the end of \<open>u\<close>. A match starts
  at position \<open>j\<close> when \<^verbatim>\<open>files/\<close> stands there with a character other than \<^verbatim>\<open>/\<close>
  after it. The first match is the match at the least position where one starts.
\<close>

definition pattern_at :: "string \<Rightarrow> nat \<Rightarrow> string \<Rightarrow> bool" where
  "pattern_at u i m =
     (prefix ''files/'' m \<and> drop 6 m \<noteq> [] \<and> CHR ''/'' \<notin> set (drop 6 m) \<and>
      prefix m (drop i u) \<and>
      (drop (i + length m) u = [] \<or> hd (drop (i + length m) u) = CHR ''/''))"

definition pattern_starts :: "string \<Rightarrow> nat \<Rightarrow> bool" where
  "pattern_starts u j =
     (prefix ''files/'' (drop j u) \<and> j + 6 < length u \<and> u ! (j + 6) \<noteq> CHR ''/'')"

definition first_pattern_match :: "string \<Rightarrow> string \<Rightarrow> bool" where
  "first_pattern_match u m =
     (\<exists>i \<in> {..<length u}. pattern_at u i m \<and> (\<forall>j \<in> {..<i}. \<not> pattern_starts u j))"

section \<open>The polling loops, case by case\<close>

declare upload_poll.simps [simp del] import_poll.simps [simp del]

lemma emit_simps [simp]: "fst (emit evs r) = fst r" "snd (emit evs r) = evs @ snd r"
  by (simp_all add: emit_def)

lemma emit_pair [simp]: "emit evs (x, tr) = (x, evs @ tr)"
  by (simp add: emit_def)

lemma catch_simps [simp]:
  "catch dflt (Inl e, tr) = (json_error (catch_message e dflt) 500, tr)"
  "catch dflt (Inr resp, tr) = (resp, tr)"
  by (simp_all add: catch_def)

lemma snd_catch [simp]: "snd (catch dflt r) = snd r"
  by (simp add: catch_def split: sum.splits)

subsection \<open>The upload loop, one iteration at a time\<close>

lemma upload_poll_stop:
  "\<not> (f_state f = Some ''PROCESSING'' \<and> k < maxAttempts) \<Longrightarrow>
   upload_poll get f k = (Fallthrough f, [])"
  by (subst upload_poll.simps) auto

lemma upload_poll_noname:
  "f_state f = Some ''PROCESSING'' \<Longrightarrow> k < maxAttempts \<Longrightarrow> \<not> truthy_str (f_name f) \<Longrightarrow>
   upload_poll get f k = (Throw (Error ''File name not found''), [Sleep 1000])"
  by (simp add: upload_poll.simps [of get f k] truthy_str_def split: option.splits)

lemma upload_poll_throw:
  "f_state f = Some ''PROCESSING'' \<Longrightarrow> k < maxAttempts \<Longrightarrow> f_name f = Some n \<Longrightarrow> n \<noteq> [] \<Longrightarrow>
   get k = Inl e \<Longrightarrow>
   upload_poll get f k = (Throw e, [Sleep 1000, FilesGet n (Inl e)])"
  by (simp add: upload_poll.simps [of get f k])

lemma upload_poll_failed:
  "f_state f = Some ''PROCESSING'' \<Longrightarrow> k < maxAttempts \<Longrightarrow> f_name f = Some n \<Longrightarrow> n \<noteq> [] \<Longrightarrow>
   get k = Inr g \<Longrightarrow> f_state g = Some ''FAILED'' \<Longrightarrow>
   upload_poll get f k =
     (Return (json_error (file_failure g) 500), [Sleep 1000, FilesGet n (Inr g)])"
  by (simp add: upload_poll.simps [of get f k])

lemma upload_poll_step:
  "f_state f = Some ''PROCESSING'' \<Longrightarrow> k < maxAttempts \<Longrightarrow> f_name f = Some n \<Longrightarrow> n \<noteq> [] \<Longrightarrow>
   get k = Inr g \<Longrightarrow> f_state g \<noteq> Some ''FAILED'' \<Longrightarrow>
   upload_poll get f k = emit [Sleep 1000, FilesGet n (Inr g)] (upload_poll get g (Suc k))"
  by (simp add: upload_poll.simps [of get f k] emit_def)

lemma upload_poll_induct [case_names stop noname throw failed step]:
  assumes stop: "\<And>f k. \<not> (f_state f = Some ''PROCESSING'' \<and> k < maxAttempts) \<Longrightarrow> P f k"
    and noname: "\<And>f k. f_state f = Some ''PROCESSING'' \<Longrightarrow> k < maxAttempts \<Longrightarrow>
        \<not> truthy_str (f_name f) \<Longrightarrow> P f k"
    and throw: "\<And>f k n e. f_state f = Some ''PROCESSING'' \<Longrightarrow> k < maxAttempts \<Longrightarrow>
        f_name f = Some n \<Longrightarrow> n \<noteq> [] \<Longrightarrow> get k = Inl e \<Longrightarrow> P f k"
    and failed: "\<And>f k n g. f_state f = Some ''PROCESSING'' \<Longrightarrow> k < maxAttempts \<Longrightarrow>
        f_name f = Some n \<Longrightarrow> n \<noteq> [] \<Longrightarrow> get k = Inr g \<Longrightarrow> f_state g = Some ''FAILED'' \<Longrightarrow> P f k"
    and step: "\<And>f k n g. f_state f = Some ''PROCESSING'' \<Longrightarrow> k < maxAttempts \<Longrightarrow>
        f_name f = Some n \<Longrightarrow> n \<noteq> [] \<Longrightarrow> get k = Inr g \<Longrightarrow> f_state g \<noteq> Some ''FAILED'' \<Longrightarrow>
        P g (Suc k) \<Longrightarrow> P f k"
  shows "P f k"
proof (induction "maxAttempts - k" arbitrary: f k)
  case 0
  then show ?case using stop by simp
next
  case (Suc d)
  show ?case
  proof (cases "f_state f = Some ''PROCESSING'' \<and> k < maxAttempts")
    case False
    then show ?thesis by (rule stop)
  next
    case loop: True
    show ?thesis
    proof (cases "truthy_str (f_name f)")
      case False
      with loop show ?thesis using noname by blast
    next
      case True
      then obtain n where n: "f_name f = Some n" "n \<noteq> []"
        by (auto simp: truthy_str_def split: option.splits)
      show ?thesis
      proof (cases "get k")
        case (Inl e)
        with loop n show ?thesis using throw by blast
      next
        case (Inr g)
        show ?thesis
        proof (cases "f_state g = Some ''FAILED''")
          case True
          with loop n Inr show ?thesis using failed by blast
        next
          case False
          have "P g (Suc k)" using Suc.hyps(1) [of "Suc k" g] Suc.hyps(2) by simp
          with loop n Inr False show ?thesis using step by blast
        qed
      qed
    qed
  qed
qed

subsection \<open>The import loop, one iteration at a time\<close>

lemma import_poll_stop:
  "\<not> (op_done c \<noteq> Some True \<and> k < maxAttempts) \<Longrightarrow> import_poll get c k = (Inr c, [])"
  by (subst import_poll.simps) auto

lemma import_poll_throw:
  "op_done c \<noteq> Some True \<Longrightarrow> k < maxAttempts \<Longrightarrow> get k = Inl e \<Longrightarrow>
   import_poll get c k = (Inl e, [Sleep 5000, OperationsGet c (Inl e)])"
  by (simp add: import_poll.simps [of get c k])

lemma import_poll_failed:
  "op_done c \<noteq> Some True \<Longrightarrow> k < maxAttempts \<Longrightarrow> get k = Inr d \<Longrightarrow>
   import_failure d = Some msg \<Longrightarrow>
   import_poll get c k = (Inl (Error msg), [Sleep 5000, OperationsGet c (Inr d)])"
  by (simp add: import_poll.simps [of get c k])

lemma import_poll_step:
  "op_done c \<noteq> Some True \<Longrightarrow> k < maxAttempts \<Longrightarrow> get k = Inr d \<Longrightarrow>
   import_failure d = None \<Longrightarrow>
   import_poll get c k = emit [Sleep 5000, OperationsGet c (Inr d)] (import_poll get d (Suc k))"
  by (simp add: import_poll.simps [of get c k] emit_def)

lemma import_poll_induct [case_names stop throw failed step]:
  assumes stop: "\<And>c k. \<not> (op_done c \<noteq> Some True \<and> k < maxAttempts) \<Longrightarrow> P c k"
    and throw: "\<And>c k e. op_done c \<noteq> Some True \<Longrightarrow> k < maxAttempts \<Longrightarrow> get k = Inl e \<Longrightarrow> P c k"
    and failed: "\<And>c k d msg. op_done c \<noteq> Some True \<Longrightarrow> k < maxAttempts \<Longrightarrow> get k = Inr d \<Longrightarrow>
        import_failure d = Some msg \<Longrightarrow> P c k"
    and step: "\<And>c k d. op_done c \<noteq> Some True \<Longrightarrow> k < maxAttempts \<Longrightarrow> get k = Inr d \<Longrightarrow>
        import_failure d = None \<Longrightarrow> P d (Suc k) \<Longrightarrow> P c k"
  shows "P c k"
proof (induction "maxAttempts - k" arbitrary: c k)
  case 0
  then show ?case using stop by simp
next
  case (Suc n)
  show ?case
  proof (cases "op_done c \<noteq> Some True \<and> k < maxAttempts")
    case False
    then show ?thesis by (rule stop)
  next
    case loop: True
    show ?thesis
    proof (cases "get k")
      case (Inl e)
      with loop show ?thesis using throw by blast
    next
      case (Inr d)
      show ?thesis
      proof (cases "import_failure d")
        case None
        have "P d (Suc k)" using Suc.hyps(1) [of "Suc k" d] Suc.hyps(2) by simp
        with loop Inr None show ?thesis using step by blast
      next
        case (Some msg)
        with loop Inr show ?thesis using failed by blast
      qed
    qed
  qed
qed

subsection \<open>Properties of the upload loop\<close>

lemma upload_poll_failed_last:
  "i < length (snd (upload_poll get f k)) \<Longrightarrow>
   snd (upload_poll get f k) ! i = FilesGet n (Inr g) \<Longrightarrow> f_state g = Some ''FAILED'' \<Longrightarrow>
   Suc i = length (snd (upload_poll get f k)) \<and>
   fst (upload_poll get f k) = Return (json_error (file_failure g) 500)"
proof (induction f k arbitrary: i rule: upload_poll_induct [where get = get])
  case (stop f k)
  then show ?case by (simp add: upload_poll_stop)
next
  case (noname f k)
  then show ?case by (simp add: upload_poll_noname)
next
  case (throw f k m e)
  then show ?case by (auto simp: upload_poll_throw nth_Cons' split: if_splits)
next
  case (failed f k m h)
  then show ?case by (auto simp: upload_poll_failed nth_Cons' split: if_splits)
next
  case (step f k m h)
  have unfold: "upload_poll get f k =
      emit [Sleep 1000, FilesGet m (Inr h)] (upload_poll get h (Suc k))"
    using step.hyps by (rule upload_poll_step)
  from step.prems unfold step.hyps(6) obtain j where j: "i = Suc (Suc j)"
    by (cases i; cases "i - 1") (auto simp: nth_Cons')
  have "Suc j = length (snd (upload_poll get h (Suc k))) \<and>
      fst (upload_poll get h (Suc k)) = Return (json_error (file_failure g) 500)"
    using step.IH [of j] step.prems unfold j by simp
  then show ?case using unfold j by simp
qed

lemma paced_step: "is_refresh r \<Longrightarrow> paced d (Sleep d # r # rest) = paced d rest"
  by simp

lemma upload_poll_paced: "paced 1000 (snd (upload_poll get f k))"
proof (induction f k rule: upload_poll_induct [where get = get])
  case (step f k n g)
  then show ?case by (simp add: upload_poll_step)
qed (simp_all add: upload_poll_stop upload_poll_noname upload_poll_throw upload_poll_failed)

lemma upload_poll_count: "refresh_count (snd (upload_poll get f k)) \<le> maxAttempts - k"
proof (induction f k rule: upload_poll_induct [where get = get])
  case (step f k n g)
  then show ?case by (simp add: upload_poll_step refresh_count_def)
qed (simp_all add: upload_poll_stop upload_poll_noname upload_poll_throw upload_poll_failed
      refresh_count_def)

text \<open>While every answer is a named file still in processing, the loop uses its whole budget.\<close>

lemma upload_poll_pending:
  assumes "\<forall>i. k \<le> i \<and> i < maxAttempts \<longrightarrow>
             (\<exists>g. get i = Inr g \<and> f_state g = Some ''PROCESSING'' \<and> truthy_str (f_name g))"
    and "f_state f = Some ''PROCESSING''" and "truthy_str (f_name f)" and "k \<le> maxAttempts"
  shows "(\<exists>g. fst (upload_poll get f k) = Fallthrough g \<and> f_state g = Some ''PROCESSING'') \<and>
         refresh_count (snd (upload_poll get f k)) = maxAttempts - k"
  using assms
proof (induction f k rule: upload_poll_induct [where get = get])
  case (stop f k)
  then show ?case by (simp add: upload_poll_stop refresh_count_def)
next
  case (noname f k)
  then show ?case by simp
next
  case (throw f k n e)
  then show ?case by (metis Inl_Inr_False le_refl)
next
  case (failed f k n g)
  then have "\<exists>h. get k = Inr h \<and> f_state h = Some ''PROCESSING''" by (metis le_refl)
  with failed show ?case by simp
next
  case (step f k n g)
  from step.prems(1) step.hyps(2) step.hyps(5)
  have g: "f_state g = Some ''PROCESSING''" "truthy_str (f_name g)" by (metis le_refl sum.inject(2))+
  have "\<forall>i. Suc k \<le> i \<and> i < maxAttempts \<longrightarrow>
      (\<exists>g. get i = Inr g \<and> f_state g = Some ''PROCESSING'' \<and> truthy_str (f_name g))"
    using step.prems(1) by (meson Suc_leD)
  then have "(\<exists>h. fst (upload_poll get g (Suc k)) = Fallthrough h \<and> f_state h = Some ''PROCESSING'') \<and>
      refresh_count (snd (upload_poll get g (Suc k))) = maxAttempts - Suc k"
    using step.IH g step.hyps(2) by simp
  then show ?case using step.hyps by (simp add: upload_poll_step refresh_count_def)
qed



subsection \<open>Properties of the import loop\<close>

lemma import_poll_failed_last:
  "i < length (snd (import_poll get c k)) \<Longrightarrow>
   snd (import_poll get c k) ! i = OperationsGet c' (Inr d) \<Longrightarrow> import_failure d = Some msg \<Longrightarrow>
   Suc i = length (snd (import_poll get c k)) \<and> fst (import_poll get c k) = Inl (Error msg)"
proof (induction c k arbitrary: i rule: import_poll_induct [where get = get])
  case (stop c k)
  then show ?case by (simp add: import_poll_stop)
next
  case (throw c k e)
  then show ?case by (auto simp: import_poll_throw nth_Cons' split: if_splits)
next
  case (failed c k h m)
  then show ?case by (auto simp: import_poll_failed nth_Cons' split: if_splits)
next
  case (step c k h)
  have unfold: "import_poll get c k =
      emit [Sleep 5000, OperationsGet c (Inr h)] (import_poll get h (Suc k))"
    using step.hyps by (rule import_poll_step)
  from step.prems unfold step.hyps(4) obtain j where j: "i = Suc (Suc j)"
    by (cases i; cases "i - 1") (auto simp: nth_Cons')
  have "Suc j = length (snd (import_poll get h (Suc k))) \<and>
      fst (import_poll get h (Suc k)) = Inl (Error msg)"
    using step.IH [of j] step.prems unfold j by simp
  then show ?case using unfold j by simp
qed

lemma import_poll_paced: "paced 5000 (snd (import_poll get c k))"
proof (induction c k rule: import_poll_induct [where get = get])
  case (step c k d)
  then show ?case by (simp add: import_poll_step)
qed (simp_all add: import_poll_stop import_poll_throw import_poll_failed)

lemma import_poll_count: "refresh_count (snd (import_poll get c k)) \<le> maxAttempts - k"
proof (induction c k rule: import_poll_induct [where get = get])
  case (step c k d)
  then show ?case by (simp add: import_poll_step refresh_count_def)
qed (simp_all add: import_poll_stop import_poll_throw import_poll_failed refresh_count_def)

lemma import_poll_pending:
  assumes "\<forall>i. k \<le> i \<and> i < maxAttempts \<longrightarrow>
             (\<exists>d. get i = Inr d \<and> op_done d \<noteq> Some True \<and> import_failure d = None)"
    and "op_done c \<noteq> Some True" and "k \<le> maxAttempts"
  shows "(\<exists>d. fst (import_poll get c k) = Inr d \<and> op_done d \<noteq> Some True) \<and>
         refresh_count (snd (import_poll get c k)) = maxAttempts - k"
  using assms
proof (induction c k rule: import_poll_induct [where get = get])
  case (stop c k)
  then show ?case by (simp add: import_poll_stop refresh_count_def)
next
  case (throw c k e)
  then show ?case by (metis Inl_Inr_False le_refl)
next
  case (failed c k d msg)
  then have "\<exists>h. get k = Inr h \<and> import_failure h = None" by (metis le_refl)
  with failed show ?case by simp
next
  case (step c k d)
  from step.prems(1) step.hyps(2) step.hyps(3)
  have d: "op_done d \<noteq> Some True" by (metis le_refl sum.inject(2))
  have "\<forall>i. Suc k \<le> i \<and> i < maxAttempts \<longrightarrow>
      (\<exists>d. get i = Inr d \<and> op_done d \<noteq> Some True \<and> import_failure d = None)"
    using step.prems(1) by (meson Suc_leD)
  then have "(\<exists>h. fst (import_poll get d (Suc k)) = Inr h \<and> op_done h \<noteq> Some True) \<and>
      refresh_count (snd (import_poll get d (Suc k))) = maxAttempts - Suc k"
    using step.IH d step.hyps(2) by simp
  then show ?case using step.hyps by (simp add: import_poll_step refresh_count_def)
qed


subsection \<open>The handlers around the sessions\<close>

lemma upload_session_failed_last:
  "i < length (snd (upload_session get f)) \<Longrightarrow>
   snd (upload_session get f) ! i = FilesGet n (Inr g) \<Longrightarrow> f_state g = Some ''FAILED'' \<Longrightarrow>
   Suc i = length (snd (upload_session get f)) \<and>
   fst (upload_session get f) = Inr (json_error (file_failure g) 500)"
  using upload_poll_failed_last [of i get f 0 n g]
  by (simp add: upload_session_def upload_finish_def)

lemma import_session_failed_last:
  "i < length (snd (import_session get c)) \<Longrightarrow>
   snd (import_session get c) ! i = OperationsGet c' (Inr d) \<Longrightarrow> import_failure d = Some msg \<Longrightarrow>
   Suc i = length (snd (import_session get c)) \<and>
   fst (import_session get c) = Inl (Error msg)"
  using import_poll_failed_last [of i get c 0 c' d msg]
  by (simp add: import_session_def import_finish_def)

text \<open>
  The upload handler ends before any external call with an error response, or after a
  failed upload call, or it runs the poll session of the file the upload returned.
\<close>

lemma upload_POST_shape:
  "(\<exists>m. upload_POST formData upload get = (json_error m 400, []) \<or>
        upload_POST formData upload get = (json_error m 500, [])) \<or>
   (\<exists>file e. upload = Inl e \<and>
      upload_POST formData upload get =
        (json_error (catch_message e ''Failed to upload file'') 500, [upload_call file upload])) \<or>
   (\<exists>file f. formData = Inr (Some (FormFile file)) \<and> upload = Inr f \<and>
      upload_POST formData upload get =
        catch ''Failed to upload file'' (emit [upload_call file upload] (upload_session get f)))"
  by (cases formData; cases upload)
     (auto simp: upload_POST_def split: option.splits form_entry.splits)

lemma import_POST_shape:
  "(\<exists>m. import_POST dec parsed storeName importFile get = (json_error m 400, []) \<or>
        import_POST dec parsed storeName importFile get = (json_error m 500, [])) \<or>
   (\<exists>s n e. importFile = Inl e \<and>
      import_POST dec parsed storeName importFile get =
        (json_error (catch_message e ''Failed to import'') 500, [ImportFile s n importFile])) \<or>
   (\<exists>s n c. importFile = Inr c \<and>
      import_POST dec parsed storeName importFile get =
        catch ''Failed to import'' (emit [ImportFile s n importFile] (import_session get c)))"
  by (cases parsed; cases importFile)
     (auto simp: import_POST_def split: option.splits sum.splits)

lemma fst_catch_Inr: "fst r = Inr resp \<Longrightarrow> fst (catch dflt r) = resp"
  by (simp add: catch_def)

lemma fst_catch_Inl: "fst r = Inl e \<Longrightarrow> fst (catch dflt r) = json_error (catch_message e dflt) 500"
  by (simp add: catch_def)

lemma upload_POST_failed_last:
  assumes "i < length (snd (upload_POST formData upload get))"
    and "snd (upload_POST formData upload get) ! i = FilesGet n (Inr g)"
    and "f_state g = Some ''FAILED''"
  shows "Suc i = length (snd (upload_POST formData upload get)) \<and>
         fst (upload_POST formData upload get) = json_error (file_failure g) 500"
proof -
  consider (none) "snd (upload_POST formData upload get) = []"
    | (one) upf where "snd (upload_POST formData upload get) = [upload_call upf upload]"
    | (session) upf f where "upload_POST formData upload get =
        catch ''Failed to upload file'' (emit [upload_call upf upload] (upload_session get f))"
    using upload_POST_shape [of formData upload get] by (metis snd_conv)
  then show ?thesis
  proof cases
    case none
    with assms show ?thesis by simp
  next
    case one
    with assms show ?thesis by (simp add: upload_call_def)
  next
    case session
    from assms(1,2) session obtain j where j: "i = Suc j"
      by (cases i) (auto simp: upload_call_def)
    have "Suc j = length (snd (upload_session get f)) \<and>
        fst (upload_session get f) = Inr (json_error (file_failure g) 500)"
      using assms session j by (intro upload_session_failed_last [where n = n]) auto
    then show ?thesis using session j by (simp add: fst_catch_Inr)
  qed
qed

lemma import_POST_failed_last:
  assumes "i < length (snd (import_POST dec parsed storeName importFile get))"
    and "snd (import_POST dec parsed storeName importFile get) ! i = OperationsGet c (Inr d)"
    and "import_failure d = Some msg"
  shows "Suc i = length (snd (import_POST dec parsed storeName importFile get)) \<and>
         fst (import_POST dec parsed storeName importFile get) = json_error msg 500"
proof -
  let ?run = "import_POST dec parsed storeName importFile get"
  consider (none) "snd ?run = []"
    | (one) s n where "snd ?run = [ImportFile s n importFile]"
    | (session) s n c0 where "?run =
        catch ''Failed to import'' (emit [ImportFile s n importFile] (import_session get c0))"
    using import_POST_shape [of dec parsed storeName importFile get] by (metis snd_conv)
  then show ?thesis
  proof cases
    case none
    with assms show ?thesis by simp
  next
    case one
    with assms show ?thesis by simp
  next
    case session
    from assms(1,2) session obtain j where j: "i = Suc j"
      by (cases i) auto
    have "Suc j = length (snd (import_session get c0)) \<and>
        fst (import_session get c0) = Inl (Error msg)"
      using assms session j by (intro import_session_failed_last [where c' = c and d = d]) auto
    then show ?thesis using session j by (simp add: fst_catch_Inl catch_message_def)
  qed
qed

subsection \<open>Sessions that stay pending, and sessions that start terminal\<close>

lemma refresh_count_simps [simp]:
  "refresh_count [] = 0"
  "refresh_count (upload_call file ans # tr) = refresh_count tr"
  "refresh_count (ImportFile s n r # tr) = refresh_count tr"
  "refresh_count (Sleep d # tr) = refresh_count tr"
  "refresh_count (FilesGet m a # tr) = Suc (refresh_count tr)"
  "refresh_count (OperationsGet c b # tr) = Suc (refresh_count tr)"
  by (simp_all add: refresh_count_def upload_call_def)

lemma upload_POST_pending:
  assumes "f_state f = Some ''PROCESSING''" and "truthy_str (f_name f)"
    and "\<forall>i<maxAttempts. \<exists>g. get i = Inr g \<and> f_state g = Some ''PROCESSING'' \<and> truthy_str (f_name g)"
  shows "fst (upload_POST (Inr (Some (FormFile file))) (Inr f) get) =
           json_error ''File processing timeout'' 500 \<and>
         refresh_count (snd (upload_POST (Inr (Some (FormFile file))) (Inr f) get)) = 30"
proof -
  from assms(3) have "\<forall>i. 0 \<le> i \<and> i < maxAttempts \<longrightarrow>
      (\<exists>g. get i = Inr g \<and> f_state g = Some ''PROCESSING'' \<and> truthy_str (f_name g))"
    by simp
  from upload_poll_pending [OF this assms(1,2)]
  obtain g where "fst (upload_poll get f 0) = Fallthrough g" "f_state g = Some ''PROCESSING''"
    and "refresh_count (snd (upload_poll get f 0)) = maxAttempts"
    by auto
  then show ?thesis
    by (simp add: upload_POST_def upload_session_def upload_finish_def catch_def maxAttempts_def)
qed

lemma import_POST_pending:
  assumes "op_done c \<noteq> Some True"
    and "\<forall>i<maxAttempts. \<exists>d. get i = Inr d \<and> op_done d \<noteq> Some True \<and> import_failure d = None"
    and "js_truthy fileUri" and "import_fileName fileUri = Inr fileName"
    and "dec storeName = Inr decoded"
  shows "fst (import_POST dec (Inr (Some fileUri)) storeName (Inr c) get) =
           json_error ''Import timeout'' 500 \<and>
         refresh_count (snd (import_POST dec (Inr (Some fileUri)) storeName (Inr c) get)) = 30"
proof -
  from assms(2) have "\<forall>i. 0 \<le> i \<and> i < maxAttempts \<longrightarrow>
      (\<exists>d. get i = Inr d \<and> op_done d \<noteq> Some True \<and> import_failure d = None)"
    by simp
  from import_poll_pending [OF this assms(1)]
  obtain d where "fst (import_poll get c 0) = Inr d" "op_done d \<noteq> Some True"
    and "refresh_count (snd (import_poll get c 0)) = maxAttempts"
    by auto
  then show ?thesis using assms(3-5)
    by (simp add: import_POST_def import_session_def import_finish_def catch_def
        catch_message_def maxAttempts_def)
qed

lemma upload_POST_terminal:
  assumes "f_state f \<noteq> Some ''PROCESSING''"
  shows "upload_POST (Inr (Some (FormFile file))) (Inr f) get =
           (if f_state f = Some ''ACTIVE'' then json_ok (info_of f)
            else json_error ''File processing timeout'' 500,
            [upload_call file (Inr f)])"
  using assms
  by (simp add: upload_POST_def upload_session_def upload_finish_def upload_poll_stop)

lemma import_POST_terminal:
  assumes "op_done c = Some True" and "js_truthy fileUri"
    and "import_fileName fileUri = Inr fileName" and "dec storeName = Inr decoded"
  shows "import_POST dec (Inr (Some fileUri)) storeName (Inr c) get =
           (json_ok \<lparr>io_importedFile = op_response c, io_operationName = op_name c\<rparr>,
            [ImportFile decoded fileName (Inr c)])"
  using assms
  by (simp add: import_POST_def import_session_def import_finish_def import_poll_stop)

subsection \<open>What a session can answer\<close>


lemma json_ok_not_error [simp]: "json_ok x \<noteq> json_error m st" "json_error m st \<noteq> json_ok x"
  by (simp_all add: json_ok_def json_error_def)

lemma body_simps [simp]: "body (json_ok x) = Success x" "body (json_error m st) = ErrorBody m"
  by (simp_all add: json_ok_def json_error_def)





lemma json_error_eq [simp]: "(json_error m st = json_error m' st') = (m = m' \<and> st = st')"
  by (auto simp add: json_error_def)

subsection \<open>The pace of polling\<close>

lemma polling_simps [simp]:
  "polling [] = []"
  "polling (upload_call upf ans # tr) = polling tr"
  "polling (ImportFile s n r # tr) = polling tr"
  "polling (Sleep d # tr) = Sleep d # polling tr"
  "polling (FilesGet m a # tr) = FilesGet m a # polling tr"
  "polling (OperationsGet c b # tr) = OperationsGet c b # polling tr"
  by (simp_all add: polling_def upload_call_def)

lemma polling_upload_poll: "polling (snd (upload_poll get f k)) = snd (upload_poll get f k)"
proof (induction f k rule: upload_poll_induct [where get = get])
  case (step f k n g)
  then show ?case by (simp add: upload_poll_step)
qed (simp_all add: upload_poll_stop upload_poll_noname upload_poll_throw upload_poll_failed)

lemma polling_import_poll: "polling (snd (import_poll get c k)) = snd (import_poll get c k)"
proof (induction c k rule: import_poll_induct [where get = get])
  case (step c k d)
  then show ?case by (simp add: import_poll_step)
qed (simp_all add: import_poll_stop import_poll_throw import_poll_failed)

lemma upload_POST_paced:
  "paced 1000 (polling (snd (upload_POST formData upload get))) \<and>
   refresh_count (snd (upload_POST formData upload get)) \<le> 30"
proof -
  let ?run = "upload_POST formData upload get"
  consider (early) "snd ?run = []"
    | (one) upf where "snd ?run = [upload_call upf upload]"
    | (session) upf f where
        "?run = catch ''Failed to upload file'' (emit [upload_call upf upload] (upload_session get f))"
    using upload_POST_shape [of formData upload get] by (metis snd_conv)
  then show ?thesis
  proof cases
    case session
    then have "snd ?run = upload_call upf upload # snd (upload_poll get f 0)"
      by (simp add: upload_session_def)
    then show ?thesis
      using upload_poll_paced [of get f 0] upload_poll_count [of get f 0]
      by (simp add: polling_upload_poll maxAttempts_def)
  qed simp_all
qed

lemma import_POST_paced:
  "paced 5000 (polling (snd (import_POST dec parsed storeName importFile get))) \<and>
   refresh_count (snd (import_POST dec parsed storeName importFile get)) \<le> 30"
proof -
  let ?run = "import_POST dec parsed storeName importFile get"
  consider (early) "snd ?run = []"
    | (one) s n where "snd ?run = [ImportFile s n importFile]"
    | (session) s n c where
        "?run = catch ''Failed to import'' (emit [ImportFile s n importFile] (import_session get c))"
    using import_POST_shape [of dec parsed storeName importFile get] by (metis snd_conv)
  then show ?thesis
  proof cases
    case session
    then have "snd ?run = ImportFile s n importFile # snd (import_poll get c 0)"
      by (simp add: import_session_def)
    then show ?thesis
      using import_poll_paced [of get c 0] import_poll_count [of get c 0]
      by (simp add: polling_import_poll maxAttempts_def)
  qed simp_all
qed

subsection \<open>The Operation a session ends with\<close>

lemma current_file_simps [simp]:
  "current_file f [] = f"
  "current_file f (Sleep d # tr) = current_file f tr"
  "current_file f (FilesGet n (Inl e) # tr) = current_file f tr"
  "current_file f (FilesGet n (Inr g) # tr) = current_file g tr"
  by (simp_all add: current_file_def split: option.splits)

lemma current_operation_simps [simp]:
  "current_operation c [] = c"
  "current_operation c (Sleep k # tr) = current_operation c tr"
  "current_operation c (OperationsGet a (Inl e) # tr) = current_operation c tr"
  "current_operation c (OperationsGet a (Inr d) # tr) = current_operation d tr"
  by (simp_all add: current_operation_def split: option.splits)













subsection \<open>Example runs\<close>

lemma ex_upload_failed_run:
  "upload_POST (Inr (Some (FormFile ex_upfile))) (Inr ex_processing) get_failed =
     (json_error ''quota exceeded'' 500,
      [FilesUpload [104, 105] ''text/plain'' ''notes.txt'' ''text/plain'' (Inr ex_processing),
       Sleep 1000, FilesGet ''files/abc'' (Inr ex_failed)])"
  by (simp add: upload_POST_def upload_call_def upload_session_def upload_finish_def
      upload_poll_failed [where n = "''files/abc''" and g = ex_failed]
      ex_upfile_def ex_processing_def ex_failed_def get_failed_def maxAttempts_def
      file_failure_def or_else_def)

lemma ex_fileName_of: "fileName_of ''files/abc'' = ''files/abc''"
  by code_simp

lemma ex_import_failed_run:
  "import_POST decode_plain (Inr (Some (JStr ''files/abc''))) ''stores/s1'' (Inr ex_pending) ops_failed =
     (json_error ''quota exceeded'' 500,
      [ImportFile ''stores/s1'' (JStr ''files/abc'') (Inr ex_pending),
       Sleep 5000, OperationsGet ex_pending (Inr ex_op_failed)])"
  by (simp add: import_POST_def import_session_def import_finish_def import_fileName_def
      ex_fileName_of decode_plain_def
      import_poll_failed [where d = ex_op_failed and msg = "''quota exceeded''"]
      ex_pending_def ex_op_failed_def ops_failed_def maxAttempts_def
      import_failure_def errorMessage_def or_else_def catch_message_def)

lemma ex_upload_pending_run:
  "fst (upload_POST (Inr (Some (FormFile ex_upfile))) (Inr ex_processing) get_processing) =
     json_error ''File processing timeout'' 500 \<and>
   refresh_count (snd (upload_POST (Inr (Some (FormFile ex_upfile))) (Inr ex_processing)
     get_processing)) = 30"
  by (rule upload_POST_pending)
     (simp_all add: ex_processing_def get_processing_def truthy_str_def)

lemma ex_import_pending_run:
  "fst (import_POST decode_plain (Inr (Some (JStr ''files/abc''))) ''stores/s1'' (Inr ex_pending)
     ops_pending) = json_error ''Import timeout'' 500 \<and>
   refresh_count (snd (import_POST decode_plain (Inr (Some (JStr ''files/abc''))) ''stores/s1''
     (Inr ex_pending) ops_pending)) = 30"
  by (rule import_POST_pending [where fileName = "JStr ''files/abc''" and decoded = "''stores/s1''"])
     (simp_all add: ex_pending_def ops_pending_def import_failure_def import_fileName_def
       ex_fileName_of decode_plain_def)

lemma ex_upload_nameless_run:
  "upload_POST (Inr (Some (FormFile ex_upfile))) (Inr ex_processing) get_nameless =
     (json_error ''File name not found'' 500,
      [upload_call ex_upfile (Inr ex_processing), Sleep 1000,
       FilesGet ''files/abc'' (Inr ex_nameless), Sleep 1000])"
proof -
  have "upload_poll get_nameless ex_nameless (Suc 0) =
      (Throw (Error ''File name not found''), [Sleep 1000])"
    by (rule upload_poll_noname)
       (simp_all add: ex_nameless_def ex_processing_def maxAttempts_def truthy_str_def)
  moreover have "upload_poll get_nameless ex_processing 0 =
      emit [Sleep 1000, FilesGet ''files/abc'' (Inr ex_nameless)]
        (upload_poll get_nameless ex_nameless (Suc 0))"
    by (rule upload_poll_step)
       (simp_all add: ex_nameless_def ex_processing_def maxAttempts_def get_nameless_def)
  ultimately show ?thesis
    by (simp add: upload_POST_def upload_session_def upload_finish_def catch_message_def)
qed

lemma ex_upload_failed_initially_run:
  "upload_POST (Inr (Some (FormFile ex_upfile))) (Inr ex_failed) get_processing =
     (json_error ''File processing timeout'' 500, [upload_call ex_upfile (Inr ex_failed)])"
proof -
  have "f_state ex_failed \<noteq> Some ''PROCESSING''" "f_state ex_failed \<noteq> Some ''ACTIVE''"
    by (simp_all add: ex_failed_def ex_processing_def)
  then show ?thesis by (simp add: upload_POST_terminal)
qed

lemma ex_import_failed_initially_run:
  "import_POST decode_plain (Inr (Some (JStr ''files/abc''))) ''stores/s1''
      (Inr ex_op_failed_undone) ops_failed_undone =
     (json_error ''quota exceeded'' 500,
      [ImportFile ''stores/s1'' (JStr ''files/abc'') (Inr ex_op_failed_undone),
       Sleep 5000, OperationsGet ex_op_failed_undone (Inr ex_op_failed_undone)])"
  by (simp add: import_POST_def import_session_def import_finish_def import_fileName_def
      ex_fileName_of decode_plain_def
      import_poll_failed [where d = ex_op_failed_undone and msg = "''quota exceeded''"]
      ex_pending_def ex_op_failed_undone_def ops_failed_undone_def maxAttempts_def
      import_failure_def errorMessage_def catch_message_def)

lemma ex_upload_failed_like_timeout_run:
  "upload_POST (Inr (Some (FormFile ex_upfile))) (Inr ex_processing) get_failed_like_timeout =
     (json_error ''File processing timeout'' 500,
      [upload_call ex_upfile (Inr ex_processing),
       Sleep 1000, FilesGet ''files/abc'' (Inr ex_failed_like_timeout)])"
  by (simp add: upload_POST_def upload_session_def upload_finish_def
      upload_poll_failed [where n = "''files/abc''" and g = ex_failed_like_timeout]
      ex_processing_def ex_failed_like_timeout_def get_failed_like_timeout_def maxAttempts_def
      file_failure_def or_else_def)

lemma ex_upload_active_run:
  "upload_POST (Inr (Some (FormFile ex_upfile))) (Inr ex_processing) get_active =
     (json_ok (info_of ex_active),
      [upload_call ex_upfile (Inr ex_processing), Sleep 1000,
       FilesGet ''files/abc'' (Inr ex_active)])"
proof -
  have "upload_poll get_active ex_active (Suc 0) = (Fallthrough ex_active, [])"
    by (rule upload_poll_stop) (simp add: ex_active_def ex_processing_def)
  moreover have "upload_poll get_active ex_processing 0 =
      emit [Sleep 1000, FilesGet ''files/abc'' (Inr ex_active)]
        (upload_poll get_active ex_active (Suc 0))"
    by (rule upload_poll_step)
       (simp_all add: ex_active_def ex_processing_def maxAttempts_def get_active_def)
  moreover have "f_state ex_active = Some ''ACTIVE''"
    by (simp add: ex_active_def)
  ultimately show ?thesis
    by (simp add: upload_POST_def upload_session_def upload_finish_def)
qed

lemma ex_import_done_run:
  "import_POST decode_plain (Inr (Some (JStr ''files/abc''))) ''stores/s1'' (Inr ex_pending) ops_done =
     (json_ok \<lparr>io_importedFile = op_response ex_done, io_operationName = op_name ex_done\<rparr>,
      [ImportFile ''stores/s1'' (JStr ''files/abc'') (Inr ex_pending), Sleep 5000,
       OperationsGet ex_pending (Inr ex_done)])"
proof -
  have "import_poll ops_done ex_done (Suc 0) = (Inr ex_done, [])"
    by (rule import_poll_stop) (simp add: ex_done_def)
  moreover have "import_poll ops_done ex_pending 0 =
      emit [Sleep 5000, OperationsGet ex_pending (Inr ex_done)] (import_poll ops_done ex_done (Suc 0))"
    by (rule import_poll_step)
       (simp_all add: ex_done_def ex_pending_def maxAttempts_def ops_done_def import_failure_def)
  moreover have "op_done ex_done = Some True"
    by (simp add: ex_done_def)
  ultimately show ?thesis
    by (simp add: import_POST_def import_session_def import_finish_def import_fileName_def
        ex_fileName_of decode_plain_def)
qed

lemma ex_import_failed_like_timeout_run:
  "import_POST decode_plain (Inr (Some (JStr ''files/abc''))) ''stores/s1'' (Inr ex_pending)
      ops_failed_like_timeout =
     (json_error ''Import timeout'' 500,
      [ImportFile ''stores/s1'' (JStr ''files/abc'') (Inr ex_pending),
       Sleep 5000, OperationsGet ex_pending (Inr ex_op_failed_like_timeout)])"
  by (simp add: import_POST_def import_session_def import_finish_def import_fileName_def
      ex_fileName_of decode_plain_def
      import_poll_failed [where d = ex_op_failed_like_timeout and msg = "''Import timeout''"]
      ex_pending_def ex_op_failed_like_timeout_def ops_failed_like_timeout_def maxAttempts_def
      import_failure_def errorMessage_def or_else_def catch_message_def)







subsection \<open>The query handler\<close>

lemma query_POST_unprintable:
  assumes "q_query b = Some q" and "js_truthy q" and "q_fileSearchStoreNames b = Some names"
    and "js_truthy names" and "js_length names \<noteq> Some (JNum 0)" and "template_throws q"
  shows "query_POST environment (Inr b) gen sc cs =
     (json_error ''Cannot convert object to primitive value'' 500, [])"
  using assms by (simp add: query_POST_def catch_message_def)

lemma query_POST_accepted:
  assumes "q_query b = Some q" and "js_truthy q" and "q_fileSearchStoreNames b = Some names"
    and "js_truthy names" and "js_length names \<noteq> Some (JNum 0)" and "\<not> template_throws q"
  shows "query_POST environment (Inr b) gen sc cs =
     catch ''Failed to process query''
       (emit [GenerateContent q (storeNames_of names) gen]
          (case gen of
             Inl e \<Rightarrow> (Inl e, [])
           | Inr result \<Rightarrow>
               query_respond environment (q_createSlides b) q (storeNames_of names) result sc cs))"
  using assms by (simp add: query_POST_def)

lemma query_respond_success:
  assumes "fst (query_respond environment createSlides q names result sc cs) = Inr r"
    and "body r = Success ok"
  shows "g_text result = Some (answer ok) \<and> answer ok \<noteq> [] \<and> citations ok = citations_of result"
  using assms
  by (auto simp add: query_respond_def query_success_def split: option.splits if_splits sum.splits)

lemma query_POST_success:
  assumes "body (fst (query_POST environment parsed gen sc cs)) = Success ok"
  shows "\<exists>result. gen = Inr result \<and> g_text result = Some (answer ok) \<and> answer ok \<noteq> [] \<and>
           citations ok = citations_of result"
proof -
  have "\<exists>result q names createSlides r. gen = Inr result \<and>
      fst (query_respond environment createSlides q names result sc cs) = Inr r \<and> body r = Success ok"
    using assms
    by (auto simp add: query_POST_def catch_def split: sum.splits option.splits if_splits)
  then show ?thesis using query_respond_success by blast
qed

lemma citations_of_chunks:
  "first_chunks result = Some chunks \<Longrightarrow> citations_of result = map cite chunks"
  "first_chunks result = None \<Longrightarrow> citations_of result = []"
  by (simp_all add: citations_of_def)

lemma first_chunks_cases:
  "g_candidates result = Some (c # rest) \<Longrightarrow> c_groundingMetadata c = Some gm \<Longrightarrow>
     first_chunks result = gm_groundingChunks gm"
  "g_candidates result = Some (c # rest) \<Longrightarrow> c_groundingMetadata c = None \<Longrightarrow>
     first_chunks result = None"
  "g_candidates result = Some [] \<Longrightarrow> first_chunks result = None"
  "g_candidates result = None \<Longrightarrow> first_chunks result = None"
  by (simp_all add: first_chunks_def)

lemma query_respond_status:
  "fst (query_respond environment createSlides q names result sc cs) = Inr r \<Longrightarrow>
     status r = 200 \<or> status r = 500"
  by (auto simp add: query_respond_def query_success_def json_error_def
      split: option.splits if_splits sum.splits)

lemma query_POST_accepted_status:
  assumes "q_query b = Some q" and "js_truthy q" and "q_fileSearchStoreNames b = Some names"
    and "js_truthy names" and "js_length names \<noteq> Some (JNum 0)"
  shows "status (fst (query_POST environment (Inr b) gen sc cs)) \<noteq> 400"
proof (cases "template_throws q")
  case True
  then show ?thesis using assms by (simp add: query_POST_unprintable json_error_def)
next
  case printable: False
  note accepted = query_POST_accepted [OF assms printable]
  show ?thesis
  proof (cases gen)
    case (Inl e)
    then show ?thesis by (simp add: accepted json_error_def)
  next
    case (Inr result)
    show ?thesis
    proof (cases "fst (query_respond environment (q_createSlides b) q (storeNames_of names) result sc cs)")
      case (Inl e)
      then show ?thesis using Inr by (simp add: accepted fst_catch_Inl json_error_def)
    next
      case r: (Inr r)
      then have "status r = 200 \<or> status r = 500" by (rule query_respond_status)
      then show ?thesis using Inr r by (auto simp add: accepted fst_catch_Inr)
    qed
  qed
qed

lemma query_POST_accepted_call:
  assumes "q_query b = Some q" and "js_truthy q" and "q_fileSearchStoreNames b = Some names"
    and "js_truthy names" and "js_length names \<noteq> Some (JNum 0)" and "\<not> template_throws q"
  shows "\<exists>rest. snd (query_POST environment (Inr b) gen sc cs) =
            GenerateContent q (storeNames_of names) gen # rest"
  by (cases gen) (simp_all add: query_POST_accepted [OF assms])

lemma destructure_query_simps:
  "destructure_query (Inl e) = Inl e"
  "destructure_query (Inr JNull) =
     Inl (Error ''Cannot destructure property 'query' of '(intermediate value)' as it is null.'')"
  "v \<noteq> JNull \<Longrightarrow> destructure_query (Inr v) =
     Inr \<lparr>q_query = member v ''query'',
          q_fileSearchStoreNames = member v ''fileSearchStoreNames'',
          q_createSlides = member v ''createSlides''\<rparr>"
  by (cases v; simp add: destructure_query_def)+

lemma destructure_import_simps:
  "destructure_import (Inl e) = Inl e"
  "destructure_import (Inr JNull) =
     Inl (Error ''Cannot destructure property 'fileUri' of '(intermediate value)' as it is null.'')"
  "v \<noteq> JNull \<Longrightarrow> destructure_import (Inr v) = Inr (member v ''fileUri'')"
  by (cases v; simp add: destructure_import_def member_def)+

lemma handlers_rethrow:
  "upload_POST (Inl e) upload get = (json_error (catch_message e ''Failed to upload file'') 500, [])"
  "query_POST environment (Inl e) gen sc cs =
     (json_error (catch_message e ''Failed to process query'') 500, [])"
  "import_POST dec (Inl e) storeName importFile oget =
     (json_error (catch_message e ''Failed to import'') 500, [])"
  by (simp_all add: upload_POST_def query_POST_def import_POST_def)

subsection \<open>The regular expression match against the pattern in words\<close>

lemma takeWhile_eq_Nil_iff': "takeWhile P xs = [] \<longleftrightarrow> xs = [] \<or> \<not> P (hd xs)"
  by (cases xs) auto

lemma match_here_None: "match_here s = None \<longleftrightarrow> \<not> pattern_starts s 0"
proof -
  have "drop 6 s = [] \<or> hd (drop 6 s) = CHR ''/'' \<longleftrightarrow> \<not> (6 < length s \<and> s ! 6 \<noteq> CHR ''/'')"
  proof (cases "6 < length s")
    case True
    then show ?thesis by (simp add: hd_drop_conv_nth)
  next
    case False
    then show ?thesis by simp
  qed
  then show ?thesis
    by (auto simp add: match_here_def pattern_starts_def Let_def takeWhile_eq_Nil_iff')
qed

lemma takeWhile_segment:
  assumes "CHR ''/'' \<notin> set seg" and "rest = [] \<or> hd rest = CHR ''/''"
  shows "takeWhile (\<lambda>c. c \<noteq> CHR ''/'') (seg @ rest) = seg"
proof -
  have "takeWhile (\<lambda>c. c \<noteq> CHR ''/'') rest = []"
    using assms(2) by (cases rest) auto
  moreover have "\<And>x. x \<in> set seg \<Longrightarrow> x \<noteq> CHR ''/''"
    using assms(1) by auto
  ultimately show ?thesis by (simp add: takeWhile_append2)
qed

lemma match_here_Some: "match_here s = Some m \<longleftrightarrow> pattern_at s 0 m"
proof
  assume "match_here s = Some m"
  then have p: "prefix ''files/'' s" and seg: "takeWhile (\<lambda>c. c \<noteq> CHR ''/'') (drop 6 s) \<noteq> []"
    and m: "m = ''files/'' @ takeWhile (\<lambda>c. c \<noteq> CHR ''/'') (drop 6 s)"
    by (auto simp add: match_here_def Let_def split: if_splits)
  from p obtain t where s: "s = ''files/'' @ t" by (auto simp add: prefix_def)
  then have t: "drop 6 s = t" by simp
  let ?seg = "takeWhile (\<lambda>c. c \<noteq> CHR ''/'') t"
  let ?rest = "dropWhile (\<lambda>c. c \<noteq> CHR ''/'') t"
  have split: "s = m @ ?rest" using s m t by simp
  have no_slash: "CHR ''/'' \<notin> set ?seg" by (auto dest: set_takeWhileD)
  have rest: "?rest = [] \<or> hd ?rest = CHR ''/''"
    using hd_dropWhile [of "\<lambda>c. c \<noteq> CHR ''/''" t] by auto
  have "drop (length m) s = ?rest" using split by (metis append_eq_conv_conj)
  moreover have "prefix m s" using split by (metis prefixI)
  ultimately show "pattern_at s 0 m"
    using m seg t no_slash rest by (simp add: pattern_at_def)
next
  assume "pattern_at s 0 m"
  then have pm: "prefix ''files/'' m" and seg: "drop 6 m \<noteq> []"
    and no_slash: "CHR ''/'' \<notin> set (drop 6 m)" and ms: "prefix m s"
    and rest: "drop (length m) s = [] \<or> hd (drop (length m) s) = CHR ''/''"
    by (simp_all add: pattern_at_def)
  from pm have m: "m = ''files/'' @ drop 6 m" by (auto simp add: prefix_def)
  from ms obtain r where s: "s = m @ r" by (auto simp add: prefix_def)
  then have r: "drop (length m) s = r" by simp
  have "s = ''files/'' @ (drop 6 m @ r)" using s m by (metis append_assoc)
  then have ps: "prefix ''files/'' s" and d: "drop 6 s = drop 6 m @ r"
    by (simp_all add: prefix_def)
  have "takeWhile (\<lambda>c. c \<noteq> CHR ''/'') (drop 6 s) = drop 6 m"
    using d takeWhile_segment [OF no_slash] rest r by simp
  then show "match_here s = Some m"
    using ps seg m by (simp add: match_here_def Let_def)
qed

lemma pattern_at_Cons: "pattern_at (c # cs) (Suc i) m = pattern_at cs i m"
  by (simp add: pattern_at_def)

lemma pattern_starts_Cons: "pattern_starts (c # cs) (Suc j) = pattern_starts cs j"
  by (simp add: pattern_starts_def add.commute [of 6])

lemma first_pattern_match_Nil: "\<not> first_pattern_match [] m"
  by (simp add: first_pattern_match_def)

lemma first_pattern_match_Cons:
  "first_pattern_match (c # cs) m \<longleftrightarrow>
     pattern_at (c # cs) 0 m \<or> (\<not> pattern_starts (c # cs) 0 \<and> first_pattern_match cs m)"
proof -
  have "first_pattern_match (c # cs) m \<longleftrightarrow>
      (\<exists>i<Suc (length cs). pattern_at (c # cs) i m \<and> (\<forall>j<i. \<not> pattern_starts (c # cs) j))"
    by (simp add: first_pattern_match_def Bex_def Ball_def)
  also have "\<dots> \<longleftrightarrow> pattern_at (c # cs) 0 m \<or>
      (\<exists>i<length cs. pattern_at cs i m \<and>
         \<not> pattern_starts (c # cs) 0 \<and> (\<forall>j<i. \<not> pattern_starts cs j))"
    by (simp add: Ex_less_Suc2 All_less_Suc2 pattern_at_Cons pattern_starts_Cons)
  also have "\<dots> \<longleftrightarrow> pattern_at (c # cs) 0 m \<or>
      (\<not> pattern_starts (c # cs) 0 \<and>
       (\<exists>i<length cs. pattern_at cs i m \<and> (\<forall>j<i. \<not> pattern_starts cs j)))"
    by blast
  also have "\<dots> \<longleftrightarrow> pattern_at (c # cs) 0 m \<or>
      (\<not> pattern_starts (c # cs) 0 \<and> first_pattern_match cs m)"
    by (simp add: first_pattern_match_def Bex_def Ball_def)
  finally show ?thesis .
qed

text \<open>The refinement: \<open>match_files\<close> finds exactly the first match of the pattern.\<close>

lemma match_files_first: "match_files u = Some m \<longleftrightarrow> first_pattern_match u m"
proof (induction u)
  case Nil
  then show ?case by (simp add: first_pattern_match_Nil)
next
  case (Cons c cs)
  have "match_files (c # cs) = Some m \<longleftrightarrow>
      match_here (c # cs) = Some m \<or> (match_here (c # cs) = None \<and> match_files cs = Some m)"
    by (cases "match_here (c # cs)") simp_all
  also have "\<dots> \<longleftrightarrow> pattern_at (c # cs) 0 m \<or>
      (\<not> pattern_starts (c # cs) 0 \<and> first_pattern_match cs m)"
    by (simp only: match_here_Some match_here_None Cons.IH)
  finally show ?case by (simp only: first_pattern_match_Cons)
qed

lemma match_files_None: "match_files u = None \<longleftrightarrow> (\<forall>m. \<not> first_pattern_match u m)"
  using match_files_first [of u] by (cases "match_files u") auto

lemma import_POST_forwards:
  assumes "fileUri \<noteq> []" and "dec storeName = Inr decoded"
  shows "\<exists>rest. snd (import_POST dec (Inr (Some (JStr fileUri))) storeName importFile oget) =
           ImportFile decoded (JStr (fileName_of fileUri)) importFile # rest"
  using assms
  by (cases importFile) (simp_all add: import_POST_def import_fileName_def)

lemma ex_query_run:
  "query_POST ex_env (Inr ex_query) (Inr ex_result) (Inl []) (Inl []) =
     (query_success \<lparr>answer = ''The notes say hi.'',
        citations = [\<lparr>segment = ''https://example.org/a'', confidenceScore = Some 1\<rparr>,
                     \<lparr>segment = ''stores/s1/doc2'', confidenceScore = None\<rparr>],
        slides = None\<rparr>,
      [GenerateContent (JStr ''What is in the notes?'') [JStr ''stores/s1''] (Inr ex_result)])"
  by (simp add: query_POST_def query_respond_def ex_query_def ex_result_def js_length_def
      storeNames_of_def truthy_def citations_of_def first_chunks_def cite_def opt_uri_def
      or_else_def ex_chunk_web_def ex_chunk_retrieved_def)

lemma ex_query_ungrounded_run:
  "query_POST ex_env (Inr ex_query) (Inr ex_result_ungrounded) (Inl []) (Inl []) =
     (query_success \<lparr>answer = ''No sources.'', citations = [], slides = None\<rparr>,
      [GenerateContent (JStr ''What is in the notes?'') [JStr ''stores/s1'']
         (Inr ex_result_ungrounded)])"
  by (simp add: query_POST_def query_respond_def ex_query_def ex_result_ungrounded_def js_length_def
      storeNames_of_def truthy_def citations_of_def first_chunks_def)

lemma ex_query_array_run:
  "query_POST ex_env (Inr (ex_query\<lparr>q_fileSearchStoreNames := Some (JArr [JStr ''stores/s1''])\<rparr>))
     (Inr ex_result) (Inl []) (Inl []) =
     (query_success \<lparr>answer = ''The notes say hi.'',
        citations = [\<lparr>segment = ''https://example.org/a'', confidenceScore = Some 1\<rparr>,
                     \<lparr>segment = ''stores/s1/doc2'', confidenceScore = None\<rparr>],
        slides = None\<rparr>,
      [GenerateContent (JStr ''What is in the notes?'') [JStr ''stores/s1''] (Inr ex_result)])"
  by (simp add: query_POST_def query_respond_def ex_query_def ex_result_def js_length_def
      storeNames_of_def truthy_def citations_of_def first_chunks_def cite_def opt_uri_def
      or_else_def ex_chunk_web_def ex_chunk_retrieved_def)

lemma ex_query_unprintable_run:
  "query_POST ex_env (Inr ex_query_unprintable) (Inr ex_result) (Inl []) (Inl []) =
     (json_error ''Cannot convert object to primitive value'' 500, [])"
  by (rule query_POST_unprintable [where q = "JObj [(''toString'', JNum 1)]"
        and names = "JStr ''stores/s1''"])
     (simp_all add: ex_query_unprintable_def ex_query_def js_length_def)

lemma ex_query_missing_run:
  "query_POST ex_env (Inr ex_query_missing) (Inr ex_result) (Inl []) (Inl []) =
     (json_error ''Query is required'' 400, [])"
  by (simp add: query_POST_def ex_query_missing_def ex_query_def)

lemma ex_fileName_of_uri: "fileName_of ''https://host/v1beta/files/abc123'' = ''files/abc123''"
  by code_simp

lemma ex_includes_uri: "str_includes ''https://host/v1beta/files/abc123'' ''/files/''"
  by code_simp

lemma ex_fileName_of_bare: "fileName_of ''https://host/files/'' = ''https://host/files/''"
  by code_simp

lemma ex_includes_bare: "str_includes ''https://host/files/'' ''/files/''"
  by code_simp

lemma ex_match_files_bare: "match_files ''https://host/files/'' = None"
  by code_simp

lemma ex_plain: "\<not> str_includes ''files/abc'' ''/files/''"
  by code_simp

section \<open>The claims\<close>



text \<open>
  C2 (as amended). A poll session whose Operation stays pending on every refresh uses
  the whole budget: the handler answers with status 500 and the fixed timeout message
  after exactly 30 refresh calls. For the upload poller this needs the file to carry a
  non-empty name whenever it is polled (line 42 throws otherwise); pending means state
  \<^verbatim>\<open>PROCESSING\<close> for a file, and neither done nor failed for an import operation.
  For the import handler the hypotheses also say that the request reached the import
  call.
\<close>

theorem pending_session_times_out:
  "(f_state f = Some ''PROCESSING'' \<and> truthy_str (f_name f) \<and>
    (\<forall>i<maxAttempts. \<exists>g. get i = Inr g \<and> f_state g = Some ''PROCESSING'' \<and> truthy_str (f_name g)) \<longrightarrow>
      fst (upload_POST (Inr (Some (FormFile upf))) (Inr f) get) =
        json_error ''File processing timeout'' 500 \<and>
      refresh_count (snd (upload_POST (Inr (Some (FormFile upf))) (Inr f) get)) = 30) \<and>
   (op_done c \<noteq> Some True \<and>
    (\<forall>i<maxAttempts. \<exists>d. oget i = Inr d \<and> op_done d \<noteq> Some True \<and> import_failure d = None) \<and>
    js_truthy fileUri \<and> import_fileName fileUri = Inr fileName \<and> dec storeName = Inr decoded \<longrightarrow>
      fst (import_POST dec (Inr (Some fileUri)) storeName (Inr c) oget) =
        json_error ''Import timeout'' 500 \<and>
      refresh_count (snd (import_POST dec (Inr (Some fileUri)) storeName (Inr c) oget)) = 30)"
  using upload_POST_pending [of f get upf]
    import_POST_pending [of c oget fileUri fileName dec storeName decoded]
  by blast

theorem pending_session_times_out_witness:
  "f_state ex_processing = Some ''PROCESSING'' \<and> truthy_str (f_name ex_processing) \<and>
   get_processing 29 = Inr ex_processing \<and>
   fst (upload_POST (Inr (Some (FormFile ex_upfile))) (Inr ex_processing) get_processing) =
     json_error ''File processing timeout'' 500 \<and>
   refresh_count (snd (upload_POST (Inr (Some (FormFile ex_upfile))) (Inr ex_processing)
     get_processing)) = 30 \<and>
   op_done ex_pending \<noteq> Some True \<and> ops_pending 29 = Inr ex_pending \<and>
   import_failure ex_pending = None \<and>
   fst (import_POST decode_plain (Inr (Some (JStr ''files/abc''))) ''stores/s1'' (Inr ex_pending)
     ops_pending) = json_error ''Import timeout'' 500 \<and>
   refresh_count (snd (import_POST decode_plain (Inr (Some (JStr ''files/abc''))) ''stores/s1''
     (Inr ex_pending) ops_pending)) = 30"
  using pending_session_times_out [of ex_processing get_processing ex_upfile ex_pending ops_pending
      "JStr ''files/abc''" "JStr ''files/abc''" decode_plain "''stores/s1''" "''stores/s1''"]
  by (simp add: ex_processing_def get_processing_def truthy_str_def ex_pending_def ops_pending_def
      import_failure_def import_fileName_def ex_fileName_of decode_plain_def)

text \<open>
  As stated, C2 fails for the upload poller: a file that stays in \<^verbatim>\<open>PROCESSING\<close> but is
  read back without a name ends the session with the error "File name not found" after
  one refresh call.
\<close>

theorem pending_session_times_out_counterexample:
  "f_state ex_processing = Some ''PROCESSING'' \<and>
   get_nameless 0 = Inr ex_nameless \<and> f_state ex_nameless = Some ''PROCESSING'' \<and>
   upload_POST (Inr (Some (FormFile ex_upfile))) (Inr ex_processing) get_nameless =
     (json_error ''File name not found'' 500,
      [upload_call ex_upfile (Inr ex_processing), Sleep 1000,
       FilesGet ''files/abc'' (Inr ex_nameless), Sleep 1000]) \<and>
   refresh_count (snd (upload_POST (Inr (Some (FormFile ex_upfile))) (Inr ex_processing)
     get_nameless)) = 1 \<and>
   fst (upload_POST (Inr (Some (FormFile ex_upfile))) (Inr ex_processing) get_nameless) \<noteq>
     json_error ''File processing timeout'' 500"
proof -
  have "f_state ex_processing = Some ''PROCESSING''" "get_nameless 0 = Inr ex_nameless"
    "f_state ex_nameless = Some ''PROCESSING''"
    by (simp_all add: ex_processing_def ex_nameless_def get_nameless_def)
  then show ?thesis
    by (simp add: ex_upload_nameless_run json_error_def)
qed

text \<open>
  C3 (as amended). When the initial Operation is not pending as the code tests it
  (upload: a file state other than \<^verbatim>\<open>PROCESSING\<close>; import: \<^verbatim>\<open>done\<close> is true), the
  session makes no refresh call and no delay: the trace holds the submitting call
  alone. When the initial Operation is done (state \<^verbatim>\<open>ACTIVE\<close>, or \<^verbatim>\<open>done\<close> true) the
  handler answers success with that Operation's data.
\<close>

theorem terminal_start_skips_polling:
  "(f_state f \<noteq> Some ''PROCESSING'' \<longrightarrow>
      snd (upload_POST (Inr (Some (FormFile upf))) (Inr f) get) = [upload_call upf (Inr f)] \<and>
      (f_state f = Some ''ACTIVE'' \<longrightarrow>
         fst (upload_POST (Inr (Some (FormFile upf))) (Inr f) get) = json_ok (info_of f))) \<and>
   (op_done c = Some True \<and> js_truthy fileUri \<and> import_fileName fileUri = Inr fileName \<and>
    dec storeName = Inr decoded \<longrightarrow>
      import_POST dec (Inr (Some fileUri)) storeName (Inr c) oget =
        (json_ok \<lparr>io_importedFile = op_response c, io_operationName = op_name c\<rparr>,
         [ImportFile decoded fileName (Inr c)]))"
  using upload_POST_terminal [of f upf get]
    import_POST_terminal [of c fileUri fileName dec storeName decoded oget]
  by simp

theorem terminal_start_skips_polling_witness:
  "f_state ex_active = Some ''ACTIVE'' \<and>
   upload_POST (Inr (Some (FormFile ex_upfile))) (Inr ex_active) get_processing =
     (json_ok (info_of ex_active), [upload_call ex_upfile (Inr ex_active)]) \<and>
   op_done ex_done = Some True \<and>
   import_POST decode_plain (Inr (Some (JStr ''files/abc''))) ''stores/s1'' (Inr ex_done) ops_pending =
     (json_ok \<lparr>io_importedFile = Some (JStr ''imported''), io_operationName = Some ''operations/op1''\<rparr>,
      [ImportFile ''stores/s1'' (JStr ''files/abc'') (Inr ex_done)])"
  using terminal_start_skips_polling [of ex_active ex_upfile get_processing ex_done
      "JStr ''files/abc''" "JStr ''files/abc''" decode_plain "''stores/s1''" "''stores/s1''" ops_pending]
  by (simp add: ex_active_def ex_processing_def ex_done_def ex_pending_def
      import_fileName_def ex_fileName_of decode_plain_def prod_eq_iff)

text \<open>
  As stated, C3 fails for an initial Operation that has failed: the upload handler does
  not return an initially \<^verbatim>\<open>FAILED\<close> file but answers with the timeout error, and the
  import handler polls an operation that carries an error and is not marked done.
\<close>

theorem terminal_start_skips_polling_counterexample:
  "f_state ex_failed = Some ''FAILED'' \<and>
   upload_POST (Inr (Some (FormFile ex_upfile))) (Inr ex_failed) get_processing =
     (json_error ''File processing timeout'' 500, [upload_call ex_upfile (Inr ex_failed)]) \<and>
   import_failure ex_op_failed_undone = Some ''quota exceeded'' \<and>
   refresh_count (snd (import_POST decode_plain (Inr (Some (JStr ''files/abc''))) ''stores/s1''
      (Inr ex_op_failed_undone) ops_failed_undone)) = 1"
proof -
  have "f_state ex_failed = Some ''FAILED''"
    "import_failure ex_op_failed_undone = Some ''quota exceeded''"
    by (simp_all add: ex_failed_def ex_processing_def ex_op_failed_undone_def ex_pending_def
        import_failure_def errorMessage_def)
  then show ?thesis
    by (simp add: ex_upload_failed_initially_run ex_import_failed_initially_run)
qed

text \<open>
  C5 (as amended). A session that ends in a timeout is answered with status 500 and the
  fixed message ("File processing timeout" / "Import timeout"); a session that ends in a
  remote failure is answered with status 500 and the remote-supplied detail. The two
  responses differ exactly when that detail differs from the fixed timeout message.
\<close>

theorem timeout_and_failure_responses:
  "(f_state f = Some ''PROCESSING'' \<and> truthy_str (f_name f) \<and>
    (\<forall>i<maxAttempts. \<exists>h. get i = Inr h \<and> f_state h = Some ''PROCESSING'' \<and> truthy_str (f_name h)) \<and>
    i < length (snd (upload_POST formData upload get')) \<and>
    snd (upload_POST formData upload get') ! i = FilesGet n (Inr g) \<and>
    f_state g = Some ''FAILED'' \<longrightarrow>
      fst (upload_POST (Inr (Some (FormFile upf))) (Inr f) get) =
        json_error ''File processing timeout'' 500 \<and>
      fst (upload_POST formData upload get') = json_error (file_failure g) 500 \<and>
      (fst (upload_POST (Inr (Some (FormFile upf))) (Inr f) get) =
         fst (upload_POST formData upload get') \<longleftrightarrow>
       file_failure g = ''File processing timeout'')) \<and>
   (op_done c \<noteq> Some True \<and>
    (\<forall>i<maxAttempts. \<exists>d. oget i = Inr d \<and> op_done d \<noteq> Some True \<and> import_failure d = None) \<and>
    js_truthy fileUri \<and> import_fileName fileUri = Inr fileName \<and> dec storeName = Inr decoded \<and>
    j < length (snd (import_POST dec' parsed storeName' importFile oget')) \<and>
    snd (import_POST dec' parsed storeName' importFile oget') ! j = OperationsGet c' (Inr d') \<and>
    import_failure d' = Some msg \<longrightarrow>
      fst (import_POST dec (Inr (Some fileUri)) storeName (Inr c) oget) =
        json_error ''Import timeout'' 500 \<and>
      fst (import_POST dec' parsed storeName' importFile oget') = json_error msg 500 \<and>
      (fst (import_POST dec (Inr (Some fileUri)) storeName (Inr c) oget) =
         fst (import_POST dec' parsed storeName' importFile oget') \<longleftrightarrow>
       msg = ''Import timeout''))"
proof -
  have up: "fst (upload_POST (Inr (Some (FormFile upf))) (Inr f) get) =
        json_error ''File processing timeout'' 500 \<and>
      fst (upload_POST formData upload get') = json_error (file_failure g) 500 \<and>
      (fst (upload_POST (Inr (Some (FormFile upf))) (Inr f) get) =
         fst (upload_POST formData upload get') \<longleftrightarrow>
       file_failure g = ''File processing timeout'')"
    if "f_state f = Some ''PROCESSING''" "truthy_str (f_name f)"
      "\<forall>i<maxAttempts. \<exists>h. get i = Inr h \<and> f_state h = Some ''PROCESSING'' \<and> truthy_str (f_name h)"
      "i < length (snd (upload_POST formData upload get'))"
      "snd (upload_POST formData upload get') ! i = FilesGet n (Inr g)"
      "f_state g = Some ''FAILED''"
    using that upload_POST_pending [of f get upf]
      upload_POST_failed_last [of i formData upload get' n g]
    by auto
  have im: "fst (import_POST dec (Inr (Some fileUri)) storeName (Inr c) oget) =
        json_error ''Import timeout'' 500 \<and>
      fst (import_POST dec' parsed storeName' importFile oget') = json_error msg 500 \<and>
      (fst (import_POST dec (Inr (Some fileUri)) storeName (Inr c) oget) =
         fst (import_POST dec' parsed storeName' importFile oget') \<longleftrightarrow>
       msg = ''Import timeout'')"
    if "op_done c \<noteq> Some True"
      "\<forall>i<maxAttempts. \<exists>d. oget i = Inr d \<and> op_done d \<noteq> Some True \<and> import_failure d = None"
      "js_truthy fileUri" "import_fileName fileUri = Inr fileName" "dec storeName = Inr decoded"
      "j < length (snd (import_POST dec' parsed storeName' importFile oget'))"
      "snd (import_POST dec' parsed storeName' importFile oget') ! j = OperationsGet c' (Inr d')"
      "import_failure d' = Some msg"
    using that import_POST_pending [of c oget fileUri fileName dec storeName decoded]
      import_POST_failed_last [of j dec' parsed storeName' importFile oget' c' d' msg]
    by auto
  from up im show ?thesis by blast
qed

text \<open>
  As stated, C5 fails: a remote failure whose detail is the timeout text itself is
  answered exactly as a timeout is (same status, same body).
\<close>

theorem timeout_and_failure_responses_counterexample:
  "refresh_count (snd (upload_POST (Inr (Some (FormFile ex_upfile))) (Inr ex_processing)
     get_processing)) = 30 \<and>
   fst (upload_POST (Inr (Some (FormFile ex_upfile))) (Inr ex_processing) get_processing) =
     json_error ''File processing timeout'' 500 \<and>
   snd (upload_POST (Inr (Some (FormFile ex_upfile))) (Inr ex_processing) get_failed_like_timeout) ! 2 =
     FilesGet ''files/abc'' (Inr ex_failed_like_timeout) \<and>
   f_state ex_failed_like_timeout = Some ''FAILED'' \<and>
   fst (upload_POST (Inr (Some (FormFile ex_upfile))) (Inr ex_processing) get_processing) =
     fst (upload_POST (Inr (Some (FormFile ex_upfile))) (Inr ex_processing) get_failed_like_timeout) \<and>
   refresh_count (snd (import_POST decode_plain (Inr (Some (JStr ''files/abc''))) ''stores/s1''
     (Inr ex_pending) ops_pending)) = 30 \<and>
   snd (import_POST decode_plain (Inr (Some (JStr ''files/abc''))) ''stores/s1'' (Inr ex_pending)
     ops_failed_like_timeout) ! 2 = OperationsGet ex_pending (Inr ex_op_failed_like_timeout) \<and>
   import_failure ex_op_failed_like_timeout = Some ''Import timeout'' \<and>
   fst (import_POST decode_plain (Inr (Some (JStr ''files/abc''))) ''stores/s1'' (Inr ex_pending)
     ops_pending) =
   fst (import_POST decode_plain (Inr (Some (JStr ''files/abc''))) ''stores/s1'' (Inr ex_pending)
     ops_failed_like_timeout)"
proof -
  have "f_state ex_failed_like_timeout = Some ''FAILED''"
    "import_failure ex_op_failed_like_timeout = Some ''Import timeout''"
    by (simp_all add: ex_failed_like_timeout_def ex_op_failed_like_timeout_def ex_pending_def
        import_failure_def errorMessage_def or_else_def)
  then show ?thesis
    by (simp add: ex_upload_pending_run ex_upload_failed_like_timeout_run
        ex_import_pending_run ex_import_failed_like_timeout_run)
qed

theorem timeout_and_failure_responses_witness:
  "fst (upload_POST (Inr (Some (FormFile ex_upfile))) (Inr ex_processing) get_processing) =
     json_error ''File processing timeout'' 500 \<and>
   fst (upload_POST (Inr (Some (FormFile ex_upfile))) (Inr ex_processing) get_failed) =
     json_error ''quota exceeded'' 500 \<and>
   fst (upload_POST (Inr (Some (FormFile ex_upfile))) (Inr ex_processing) get_processing) \<noteq>
     fst (upload_POST (Inr (Some (FormFile ex_upfile))) (Inr ex_processing) get_failed) \<and>
   fst (import_POST decode_plain (Inr (Some (JStr ''files/abc''))) ''stores/s1'' (Inr ex_pending)
     ops_pending) = json_error ''Import timeout'' 500 \<and>
   fst (import_POST decode_plain (Inr (Some (JStr ''files/abc''))) ''stores/s1'' (Inr ex_pending)
     ops_failed) = json_error ''quota exceeded'' 500 \<and>
   fst (import_POST decode_plain (Inr (Some (JStr ''files/abc''))) ''stores/s1'' (Inr ex_pending)
     ops_pending) \<noteq>
   fst (import_POST decode_plain (Inr (Some (JStr ''files/abc''))) ''stores/s1'' (Inr ex_pending)
     ops_failed)"
proof -
  have hyps: "f_state ex_processing = Some ''PROCESSING''" "truthy_str (f_name ex_processing)"
    "\<forall>i<maxAttempts. \<exists>h. get_processing i = Inr h \<and> f_state h = Some ''PROCESSING'' \<and>
       truthy_str (f_name h)"
    "f_state ex_failed = Some ''FAILED''" "file_failure ex_failed = ''quota exceeded''"
    "op_done ex_pending \<noteq> Some True"
    "\<forall>i<maxAttempts. \<exists>d. ops_pending i = Inr d \<and> op_done d \<noteq> Some True \<and> import_failure d = None"
    "import_fileName (JStr ''files/abc'') = Inr (JStr ''files/abc'')"
    "decode_plain ''stores/s1'' = Inr ''stores/s1''"
    "import_failure ex_op_failed = Some ''quota exceeded''"
    by (simp_all add: ex_processing_def get_processing_def truthy_str_def ex_failed_def
        file_failure_def or_else_def ex_pending_def ops_pending_def import_failure_def
        import_fileName_def ex_fileName_of decode_plain_def ex_op_failed_def errorMessage_def)
  show ?thesis
    using hyps
      timeout_and_failure_responses [of ex_processing get_processing 2
        "Inr (Some (FormFile ex_upfile))" "Inr ex_processing" get_failed "''files/abc''" ex_failed
        ex_upfile ex_pending ops_pending "JStr ''files/abc''" "JStr ''files/abc''" decode_plain
        "''stores/s1''" "''stores/s1''" 2 decode_plain "Inr (Some (JStr ''files/abc''))"
        "''stores/s1''" "Inr ex_pending" ops_failed ex_pending ex_op_failed "''quota exceeded''"]
    by (simp add: ex_upload_failed_run ex_import_failed_run)
qed

text \<open>
  C6. In every session the delays and refresh calls alternate, each refresh call right
  after a delay, and the delay is the same in every iteration: 1000 ms in the upload
  handler, 5000 ms in the import handler. Neither handler makes more than 30 refresh
  calls, the value of \<open>maxAttempts\<close> at both call sites.
\<close>

theorem polling_is_paced:
  "paced 1000 (polling (snd (upload_POST formData upload get))) \<and>
   refresh_count (snd (upload_POST formData upload get)) \<le> 30 \<and>
   paced 5000 (polling (snd (import_POST dec parsed storeName importFile oget))) \<and>
   refresh_count (snd (import_POST dec parsed storeName importFile oget)) \<le> 30 \<and>
   maxAttempts = 30"
  using upload_POST_paced [of formData upload get]
    import_POST_paced [of dec parsed storeName importFile oget]
  by (simp add: maxAttempts_def)

theorem polling_is_paced_witness:
  "polling (snd (upload_POST (Inr (Some (FormFile ex_upfile))) (Inr ex_processing) get_active)) =
     [Sleep 1000, FilesGet ''files/abc'' (Inr ex_active)] \<and>
   paced 1000 [Sleep 1000, FilesGet ''files/abc'' (Inr ex_active)] \<and>
   refresh_count (snd (upload_POST (Inr (Some (FormFile ex_upfile))) (Inr ex_processing)
     get_processing)) = 30 \<and>
   polling (snd (import_POST decode_plain (Inr (Some (JStr ''files/abc''))) ''stores/s1''
     (Inr ex_pending) ops_done)) = [Sleep 5000, OperationsGet ex_pending (Inr ex_done)] \<and>
   paced 5000 [Sleep 5000, OperationsGet ex_pending (Inr ex_done)] \<and>
   refresh_count (snd (import_POST decode_plain (Inr (Some (JStr ''files/abc''))) ''stores/s1''
     (Inr ex_pending) ops_pending)) = 30"
  using polling_is_paced [of "Inr (Some (FormFile ex_upfile))" "Inr ex_processing" get_active
      decode_plain "Inr (Some (JStr ''files/abc''))" "''stores/s1''" "Inr ex_pending" ops_done]
  by (simp add: ex_upload_active_run ex_import_done_run ex_upload_pending_run
      ex_import_pending_run)




text \<open>
  C7 (as amended). A request whose body parses (form data, or JSON other than
  \<^verbatim>\<open>null\<close>) and that lacks a required input is answered with status 400 before any
  call to an external service (the trace is empty): no file in the upload form (the
  entry is absent or an empty string); no query, or no store names or an empty list of
  them, in a query; no \<^verbatim>\<open>fileUri\<close> in an import; no \<^verbatim>\<open>name\<close> parameter in the
  deletion of a file or of a store. Absent includes every falsy value, as the handlers
  test with \<^verbatim>\<open>!x\<close>. A request whose body cannot be parsed, or is JSON \<^verbatim>\<open>null\<close>, is
  answered with status 500 and the message of the error thrown, also before any call to
  an external service.
\<close>

theorem missing_input_rejected:
  "(entry = None \<or> entry = Some (FormText []) \<longrightarrow>
      upload_POST (Inr entry) upload get = (json_error ''No file provided'' 400, [])) \<and>
   (\<not> truthy (q_query b) \<longrightarrow>
      query_POST environment (Inr b) gen sc cs = (json_error ''Query is required'' 400, [])) \<and>
   (truthy (q_query b) \<and>
    (\<not> truthy (q_fileSearchStoreNames b) \<or> q_fileSearchStoreNames b = Some (JArr [])) \<longrightarrow>
      query_POST environment (Inr b) gen sc cs =
        (json_error ''At least one fileSearchStoreName is required'' 400, [])) \<and>
   (\<not> truthy fileUri \<longrightarrow>
      import_POST dec (Inr fileUri) storeName importFile oget =
        (json_error ''fileUri is required'' 400, [])) \<and>
   (\<not> truthy_str fileName \<longrightarrow>
      files_DELETE fileName del = (json_error ''File name is required'' 400, [])) \<and>
   (\<not> truthy_str fileName \<longrightarrow>
      stores_DELETE fileName forceParam del = (json_error ''Store name is required'' 400, [])) \<and>
   (v \<noteq> JNull \<and> \<not> truthy (member v ''query'') \<longrightarrow>
      query_POST environment (destructure_query (Inr v)) gen sc cs =
        (json_error ''Query is required'' 400, [])) \<and>
   (v \<noteq> JNull \<and> \<not> truthy (member v ''fileUri'') \<longrightarrow>
      import_POST dec (destructure_import (Inr v)) storeName importFile oget =
        (json_error ''fileUri is required'' 400, [])) \<and>
   query_POST environment (destructure_query (Inr JNull)) gen sc cs =
     (json_error ''Cannot destructure property 'query' of '(intermediate value)' as it is null.'' 500,
      []) \<and>
   import_POST dec (destructure_import (Inr JNull)) storeName importFile oget =
     (json_error ''Cannot destructure property 'fileUri' of '(intermediate value)' as it is null.''
        500, []) \<and>
   query_POST environment (destructure_query (Inl e)) gen sc cs =
     (json_error (catch_message e ''Failed to process query'') 500, []) \<and>
   import_POST dec (destructure_import (Inl e)) storeName importFile oget =
     (json_error (catch_message e ''Failed to import'') 500, []) \<and>
   upload_POST (Inl e) upload get =
     (json_error (catch_message e ''Failed to upload file'') 500, [])"
proof (intro conjI impI)
  assume "entry = None \<or> entry = Some (FormText [])"
  then show "upload_POST (Inr entry) upload get = (json_error ''No file provided'' 400, [])"
    by (auto simp add: upload_POST_def)
next
  assume "\<not> truthy (q_query b)"
  then show "query_POST environment (Inr b) gen sc cs = (json_error ''Query is required'' 400, [])"
    by (auto simp add: query_POST_def truthy_def split: option.splits)
next
  assume "truthy (q_query b) \<and>
    (\<not> truthy (q_fileSearchStoreNames b) \<or> q_fileSearchStoreNames b = Some (JArr []))"
  then show "query_POST environment (Inr b) gen sc cs =
      (json_error ''At least one fileSearchStoreName is required'' 400, [])"
    by (auto simp add: query_POST_def truthy_def js_length_def split: option.splits)
next
  assume "\<not> truthy fileUri"
  then show "import_POST dec (Inr fileUri) storeName importFile oget =
      (json_error ''fileUri is required'' 400, [])"
    by (auto simp add: import_POST_def truthy_def split: option.splits)
next
  assume "\<not> truthy_str fileName"
  then show "files_DELETE fileName del = (json_error ''File name is required'' 400, [])"
    by (auto simp add: files_DELETE_def truthy_str_def split: option.splits)
next
  assume "\<not> truthy_str fileName"
  then show "stores_DELETE fileName forceParam del = (json_error ''Store name is required'' 400, [])"
    by (auto simp add: stores_DELETE_def truthy_str_def split: option.splits)
next
  assume "v \<noteq> JNull \<and> \<not> truthy (member v ''query'')"
  then show "query_POST environment (destructure_query (Inr v)) gen sc cs =
      (json_error ''Query is required'' 400, [])"
    by (auto simp add: destructure_query_simps query_POST_def truthy_def split: option.splits)
next
  assume "v \<noteq> JNull \<and> \<not> truthy (member v ''fileUri'')"
  then show "import_POST dec (destructure_import (Inr v)) storeName importFile oget =
      (json_error ''fileUri is required'' 400, [])"
    by (auto simp add: destructure_import_simps import_POST_def truthy_def split: option.splits)
next
  show "query_POST environment (destructure_query (Inr JNull)) gen sc cs =
     (json_error ''Cannot destructure property 'query' of '(intermediate value)' as it is null.'' 500,
      [])"
    by (simp add: destructure_query_simps handlers_rethrow catch_message_def)
next
  show "import_POST dec (destructure_import (Inr JNull)) storeName importFile oget =
     (json_error ''Cannot destructure property 'fileUri' of '(intermediate value)' as it is null.''
        500, [])"
    by (simp add: destructure_import_simps handlers_rethrow catch_message_def)
next
  show "query_POST environment (destructure_query (Inl e)) gen sc cs =
     (json_error (catch_message e ''Failed to process query'') 500, [])"
    by (simp add: destructure_query_simps handlers_rethrow)
next
  show "import_POST dec (destructure_import (Inl e)) storeName importFile oget =
     (json_error (catch_message e ''Failed to import'') 500, [])"
    by (simp add: destructure_import_simps handlers_rethrow)
next
  show "upload_POST (Inl e) upload get =
     (json_error (catch_message e ''Failed to upload file'') 500, [])"
    by (simp add: handlers_rethrow)
qed

theorem missing_input_rejected_witness:
  "upload_POST (Inr None) (Inr ex_active) get_active = (json_error ''No file provided'' 400, []) \<and>
   query_POST ex_env (Inr ex_query_missing) (Inr ex_result) (Inl []) (Inl []) =
     (json_error ''Query is required'' 400, []) \<and>
   query_POST ex_env (Inr (ex_query\<lparr>q_fileSearchStoreNames := Some (JArr [])\<rparr>)) (Inr ex_result)
       (Inl []) (Inl []) =
     (json_error ''At least one fileSearchStoreName is required'' 400, []) \<and>
   import_POST decode_plain (Inr None) ''stores/s1'' (Inr ex_done) ops_done =
     (json_error ''fileUri is required'' 400, []) \<and>
   files_DELETE None (Inr ()) = (json_error ''File name is required'' 400, []) \<and>
   stores_DELETE None (Some ''true'') (Inr ()) = (json_error ''Store name is required'' 400, []) \<and>
   query_POST ex_env (destructure_query (Inr (JObj [(''createSlides'', JBool True)]))) (Inr ex_result)
       (Inl []) (Inl []) =
     (json_error ''Query is required'' 400, []) \<and>
   import_POST decode_plain (destructure_import (Inr (JObj []))) ''stores/s1'' (Inr ex_done) ops_done =
     (json_error ''fileUri is required'' 400, [])"
  using missing_input_rejected [where entry = None and upload = "Inr ex_active" and get = get_active
      and b = ex_query_missing and environment = ex_env and gen = "Inr ex_result"
      and sc = "Inl []" and cs = "Inl []" and fileUri = None and dec = decode_plain
      and storeName = "''stores/s1''" and importFile = "Inr ex_done" and oget = ops_done
      and fileName = None and del = "Inr ()" and forceParam = "Some ''true''"
      and v = "JObj [(''createSlides'', JBool True)]"]
    missing_input_rejected [where entry = None and upload = "Inr ex_active" and get = get_active
      and b = "ex_query\<lparr>q_fileSearchStoreNames := Some (JArr [])\<rparr>" and environment = ex_env
      and gen = "Inr ex_result"
      and sc = "Inl []" and cs = "Inl []" and fileUri = None and dec = decode_plain
      and storeName = "''stores/s1''" and importFile = "Inr ex_done" and oget = ops_done
      and fileName = None and del = "Inr ()" and forceParam = "Some ''true''"
      and v = "JObj []"]
  by (simp add: truthy_def truthy_str_def ex_query_def ex_query_missing_def member_def)

text \<open>
  As stated, C7 fails for a request whose body is JSON \<^verbatim>\<open>null\<close>, is empty, or (for an
  upload) is not form data: it lacks the required input as well, and is answered with
  status 500 by the handler's \<^verbatim>\<open>catch\<close> block, not with 400.
\<close>

theorem missing_input_rejected_counterexample:
  "member JNull ''query'' = None \<and>
   query_POST ex_env (destructure_query (Inr JNull)) (Inr ex_result) (Inl []) (Inl []) =
     (json_error ''Cannot destructure property 'query' of '(intermediate value)' as it is null.'' 500,
      []) \<and>
   query_POST ex_env (destructure_query (Inl (Error ''Unexpected end of JSON input'')))
       (Inr ex_result) (Inl []) (Inl []) =
     (json_error ''Unexpected end of JSON input'' 500, []) \<and>
   member JNull ''fileUri'' = None \<and>
   import_POST decode_plain (destructure_import (Inr JNull)) ''stores/s1'' (Inr ex_done) ops_done =
     (json_error ''Cannot destructure property 'fileUri' of '(intermediate value)' as it is null.''
        500, []) \<and>
   upload_POST (Inl (Error ''Failed to parse body as FormData.'')) (Inr ex_processing) get_active =
     (json_error ''Failed to parse body as FormData.'' 500, [])"
  by (simp add: member_def destructure_query_simps destructure_import_simps handlers_rethrow
      catch_message_def)

text \<open>
  C8. A successful query response carries the generated text as its answer and one
  citation per grounding chunk of the first candidate, in order. The segment of a
  citation is the chunk's web URI if there is one (a non-empty string), otherwise its
  retrieved-context URI, otherwise the empty string; its confidence score is the
  chunk's, if any. Without candidates, grounding metadata or grounding chunks the list
  of citations is empty.
\<close>

theorem query_answer_and_citations:
  "body (fst (query_POST environment parsed gen sc cs)) = Success ok \<longrightarrow>
     (\<exists>result. gen = Inr result \<and> g_text result = Some (answer ok) \<and>
        (\<forall>c rest gm chunks.
            g_candidates result = Some (c # rest) \<and> c_groundingMetadata c = Some gm \<and>
            gm_groundingChunks gm = Some chunks \<longrightarrow>
              length (citations ok) = length chunks \<and>
              (\<forall>i<length chunks.
                  segment (citations ok ! i) =
                    or_else (opt_uri (ch_web (chunks ! i)))
                      (or_else (opt_uri (ch_retrievedContext (chunks ! i))) []) \<and>
                  confidenceScore (citations ok ! i) = ch_confidenceScore (chunks ! i))) \<and>
        (g_candidates result = None \<or> g_candidates result = Some [] \<or>
         (\<exists>c rest. g_candidates result = Some (c # rest) \<and>
            (c_groundingMetadata c = None \<or>
             (\<exists>gm. c_groundingMetadata c = Some gm \<and> gm_groundingChunks gm = None))) \<longrightarrow>
           citations ok = []))"
proof
  assume "body (fst (query_POST environment parsed gen sc cs)) = Success ok"
  from query_POST_success [OF this]
  obtain result where r: "gen = Inr result" "g_text result = Some (answer ok)"
      "citations ok = citations_of result"
    by blast
  have grounded: "length (citations ok) = length chunks \<and>
      (\<forall>i<length chunks.
          segment (citations ok ! i) =
            or_else (opt_uri (ch_web (chunks ! i)))
              (or_else (opt_uri (ch_retrievedContext (chunks ! i))) []) \<and>
          confidenceScore (citations ok ! i) = ch_confidenceScore (chunks ! i))"
    if "g_candidates result = Some (c # rest)" "c_groundingMetadata c = Some gm"
      "gm_groundingChunks gm = Some chunks" for c rest gm chunks
  proof -
    have "first_chunks result = Some chunks"
      using that by (simp add: first_chunks_cases(1))
    then have "citations ok = map cite chunks"
      using r(3) by (simp add: citations_of_chunks)
    then show ?thesis by (simp add: cite_def)
  qed
  have ungrounded: "citations ok = []"
    if "g_candidates result = None \<or> g_candidates result = Some [] \<or>
         (\<exists>c rest. g_candidates result = Some (c # rest) \<and>
            (c_groundingMetadata c = None \<or>
             (\<exists>gm. c_groundingMetadata c = Some gm \<and> gm_groundingChunks gm = None)))"
  proof -
    have "first_chunks result = None"
      using that by (auto simp add: first_chunks_cases)
    then show ?thesis using r(3) by (simp add: citations_of_chunks)
  qed
  from r grounded ungrounded
  show "\<exists>result. gen = Inr result \<and> g_text result = Some (answer ok) \<and>
        (\<forall>c rest gm chunks.
            g_candidates result = Some (c # rest) \<and> c_groundingMetadata c = Some gm \<and>
            gm_groundingChunks gm = Some chunks \<longrightarrow>
              length (citations ok) = length chunks \<and>
              (\<forall>i<length chunks.
                  segment (citations ok ! i) =
                    or_else (opt_uri (ch_web (chunks ! i)))
                      (or_else (opt_uri (ch_retrievedContext (chunks ! i))) []) \<and>
                  confidenceScore (citations ok ! i) = ch_confidenceScore (chunks ! i))) \<and>
        (g_candidates result = None \<or> g_candidates result = Some [] \<or>
         (\<exists>c rest. g_candidates result = Some (c # rest) \<and>
            (c_groundingMetadata c = None \<or>
             (\<exists>gm. c_groundingMetadata c = Some gm \<and> gm_groundingChunks gm = None))) \<longrightarrow>
           citations ok = [])"
    by blast
qed

theorem query_answer_and_citations_witness:
  "body (fst (query_POST ex_env (Inr ex_query) (Inr ex_result) (Inl []) (Inl []))) =
     Success \<lparr>answer = ''The notes say hi.'',
        citations = [\<lparr>segment = ''https://example.org/a'', confidenceScore = Some 1\<rparr>,
                     \<lparr>segment = ''stores/s1/doc2'', confidenceScore = None\<rparr>],
        slides = None\<rparr> \<and>
   g_text ex_result = Some ''The notes say hi.'' \<and>
   g_candidates ex_result = Some [\<lparr>c_groundingMetadata =
       Some \<lparr>gm_groundingChunks = Some [ex_chunk_web, ex_chunk_retrieved]\<rparr>\<rparr>] \<and>
   or_else (opt_uri (ch_web ex_chunk_web)) (or_else (opt_uri (ch_retrievedContext ex_chunk_web)) []) =
     ''https://example.org/a'' \<and>
   or_else (opt_uri (ch_web ex_chunk_retrieved))
     (or_else (opt_uri (ch_retrievedContext ex_chunk_retrieved)) []) = ''stores/s1/doc2'' \<and>
   body (fst (query_POST ex_env (Inr ex_query) (Inr ex_result_ungrounded) (Inl []) (Inl []))) =
     Success \<lparr>answer = ''No sources.'', citations = [], slides = None\<rparr>"
proof -
  have facts: "g_text ex_result = Some ''The notes say hi.''"
    "g_candidates ex_result = Some [\<lparr>c_groundingMetadata =
       Some \<lparr>gm_groundingChunks = Some [ex_chunk_web, ex_chunk_retrieved]\<rparr>\<rparr>]"
    "or_else (opt_uri (ch_web ex_chunk_web)) (or_else (opt_uri (ch_retrievedContext ex_chunk_web)) []) =
       ''https://example.org/a''"
    "or_else (opt_uri (ch_web ex_chunk_retrieved))
       (or_else (opt_uri (ch_retrievedContext ex_chunk_retrieved)) []) = ''stores/s1/doc2''"
    by (simp_all add: ex_result_def ex_chunk_web_def ex_chunk_retrieved_def opt_uri_def or_else_def)
  show ?thesis
    using facts
      query_answer_and_citations [where environment = ex_env and parsed = "Inr ex_query"
        and gen = "Inr ex_result" and sc = "Inl []" and cs = "Inl []"
        and ok = "\<lparr>answer = ''The notes say hi.'',
          citations = [\<lparr>segment = ''https://example.org/a'', confidenceScore = Some 1\<rparr>,
                       \<lparr>segment = ''stores/s1/doc2'', confidenceScore = None\<rparr>],
          slides = None\<rparr>"]
      query_answer_and_citations [where environment = ex_env and parsed = "Inr ex_query"
        and gen = "Inr ex_result_ungrounded" and sc = "Inl []" and cs = "Inl []"
        and ok = "\<lparr>answer = ''No sources.'', citations = [], slides = None\<rparr>"]
    by (simp add: ex_query_run ex_query_ungrounded_run query_success_def)
qed

text \<open>
  C9 (as amended). For a string \<^verbatim>\<open>fileUri\<close> that does not contain \<^verbatim>\<open>/files/\<close>, the
  name forwarded to the import call is \<^verbatim>\<open>fileUri\<close> unchanged. For one that contains
  \<^verbatim>\<open>/files/\<close>, it is the first match of the pattern \<^verbatim>\<open>files/<non-slash segment>\<close>
  in \<^verbatim>\<open>fileUri\<close> when there is a match, and \<^verbatim>\<open>fileUri\<close> unchanged when there is none
  (line 24 guards the match). The import call is the first external call of the
  handler and carries that name.
\<close>

theorem forwarded_file_name:
  "(\<not> str_includes fileUri ''/files/'' \<longrightarrow> fileName_of fileUri = fileUri) \<and>
   (str_includes fileUri ''/files/'' \<and> first_pattern_match fileUri m \<longrightarrow> fileName_of fileUri = m) \<and>
   (str_includes fileUri ''/files/'' \<and> (\<forall>m'. \<not> first_pattern_match fileUri m') \<longrightarrow>
      fileName_of fileUri = fileUri) \<and>
   (fileUri \<noteq> [] \<and> dec storeName = Inr decoded \<longrightarrow>
      (\<exists>rest. snd (import_POST dec (Inr (Some (JStr fileUri))) storeName importFile oget) =
         ImportFile decoded (JStr (fileName_of fileUri)) importFile # rest))"
proof (intro conjI impI)
  assume "\<not> str_includes fileUri ''/files/''"
  then show "fileName_of fileUri = fileUri" by (simp add: fileName_of_def)
next
  assume a: "str_includes fileUri ''/files/'' \<and> first_pattern_match fileUri m"
  then have "match_files fileUri = Some m" by (simp add: match_files_first)
  with a show "fileName_of fileUri = m" by (simp add: fileName_of_def)
next
  assume a: "str_includes fileUri ''/files/'' \<and> (\<forall>m'. \<not> first_pattern_match fileUri m')"
  then have "match_files fileUri = None" by (simp add: match_files_None)
  with a show "fileName_of fileUri = fileUri" by (simp add: fileName_of_def)
next
  assume "fileUri \<noteq> [] \<and> dec storeName = Inr decoded"
  then show "\<exists>rest. snd (import_POST dec (Inr (Some (JStr fileUri))) storeName importFile oget) =
         ImportFile decoded (JStr (fileName_of fileUri)) importFile # rest"
    using import_POST_forwards [of fileUri dec storeName decoded importFile oget] by simp
qed

theorem forwarded_file_name_witness:
  "\<not> str_includes ''files/abc'' ''/files/'' \<and> fileName_of ''files/abc'' = ''files/abc'' \<and>
   str_includes ''https://host/v1beta/files/abc123'' ''/files/'' \<and>
   first_pattern_match ''https://host/v1beta/files/abc123'' ''files/abc123'' \<and>
   fileName_of ''https://host/v1beta/files/abc123'' = ''files/abc123'' \<and>
   str_includes ''https://host/files/'' ''/files/'' \<and>
   fileName_of ''https://host/files/'' = ''https://host/files/'' \<and>
   snd (import_POST decode_plain (Inr (Some (JStr ''https://host/v1beta/files/abc123'')))
     ''stores/s1'' (Inr ex_done) ops_done) =
     [ImportFile ''stores/s1'' (JStr ''files/abc123'') (Inr ex_done)]"
proof -
  have first: "first_pattern_match ''https://host/v1beta/files/abc123'' ''files/abc123''"
    using match_files_first [of "''https://host/v1beta/files/abc123''" "''files/abc123''"]
      ex_fileName_of_uri ex_includes_uri
    by (simp add: fileName_of_def split: option.splits)
  have none: "\<forall>m'. \<not> first_pattern_match ''https://host/files/'' m'"
    using match_files_None [of "''https://host/files/''"] ex_match_files_bare by simp
  have run: "snd (import_POST decode_plain (Inr (Some (JStr ''https://host/v1beta/files/abc123'')))
     ''stores/s1'' (Inr ex_done) ops_done) =
     [ImportFile ''stores/s1'' (JStr ''files/abc123'') (Inr ex_done)]"
    using import_POST_terminal [of ex_done "JStr ''https://host/v1beta/files/abc123''"
        "JStr ''files/abc123''" decode_plain "''stores/s1''" "''stores/s1''" ops_done]
    by (simp add: ex_done_def import_fileName_def ex_fileName_of_uri decode_plain_def)
  show ?thesis
    using first none run ex_plain ex_includes_uri ex_includes_bare
      forwarded_file_name [where fileUri = "''files/abc''" and m = "''files/abc''"
        and dec = decode_plain and storeName = "''stores/s1''" and decoded = "''stores/s1''"
        and importFile = "Inr ex_done" and oget = ops_done]
      forwarded_file_name [where fileUri = "''https://host/v1beta/files/abc123''"
        and m = "''files/abc123''"
        and dec = decode_plain and storeName = "''stores/s1''" and decoded = "''stores/s1''"
        and importFile = "Inr ex_done" and oget = ops_done]
      forwarded_file_name [where fileUri = "''https://host/files/''" and m = "''files/''"
        and dec = decode_plain and storeName = "''stores/s1''" and decoded = "''stores/s1''"
        and importFile = "Inr ex_done" and oget = ops_done]
    by simp
qed

text \<open>
  As stated, C9 fails where \<^verbatim>\<open>fileUri\<close> contains \<^verbatim>\<open>/files/\<close> but the pattern has no
  match in it: nothing but a \<^verbatim>\<open>/\<close> or the end follows \<^verbatim>\<open>files/\<close>, and the name
  forwarded is \<^verbatim>\<open>fileUri\<close> itself, which is no match of the pattern.
\<close>

theorem forwarded_file_name_counterexample:
  "str_includes ''https://host/files/'' ''/files/'' \<and>
   \<not> first_pattern_match ''https://host/files/'' (fileName_of ''https://host/files/'') \<and>
   fileName_of ''https://host/files/'' = ''https://host/files/'' \<and>
   snd (import_POST decode_plain (Inr (Some (JStr ''https://host/files/''))) ''stores/s1''
     (Inr ex_done) ops_done) =
     [ImportFile ''stores/s1'' (JStr ''https://host/files/'') (Inr ex_done)]"
proof -
  have none: "\<not> first_pattern_match ''https://host/files/'' (fileName_of ''https://host/files/'')"
    using match_files_None [of "''https://host/files/''"] ex_match_files_bare by simp
  have run: "snd (import_POST decode_plain (Inr (Some (JStr ''https://host/files/''))) ''stores/s1''
     (Inr ex_done) ops_done) =
     [ImportFile ''stores/s1'' (JStr ''https://host/files/'') (Inr ex_done)]"
    using import_POST_terminal [of ex_done "JStr ''https://host/files/''"
        "JStr ''https://host/files/''" decode_plain "''stores/s1''" "''stores/s1''" ops_done]
    by (simp add: ex_done_def import_fileName_def ex_fileName_of_bare decode_plain_def)
  show ?thesis
    using none run ex_includes_bare ex_fileName_of_bare by simp
qed

text \<open>
  C10 (as amended). A query whose \<^verbatim>\<open>fileSearchStoreNames\<close> is a single non-empty
  string \<open>s\<close> is handled exactly as the query with the one-element array of that string:
  response and trace are equal, and both give the store names \<open>[s]\<close>. When the query is
  present the request is not answered with 400; when the query can also be converted to
  a string for the prompt, the retrieval service is called with the store names \<open>[s]\<close>.
  A query that cannot be converted is answered 500 before any external call, and a
  request without a query is answered 400.
\<close>

theorem scalar_store_name_is_wrapped:
  "s \<noteq> [] \<longrightarrow>
     query_POST environment (Inr (b\<lparr>q_fileSearchStoreNames := Some (JStr s)\<rparr>)) gen sc cs =
     query_POST environment (Inr (b\<lparr>q_fileSearchStoreNames := Some (JArr [JStr s])\<rparr>)) gen sc cs \<and>
     storeNames_of (JStr s) = [JStr s] \<and> storeNames_of (JArr [JStr s]) = [JStr s] \<and>
     (q_query b = Some q \<and> js_truthy q \<longrightarrow>
        status (fst (query_POST environment (Inr (b\<lparr>q_fileSearchStoreNames := Some (JStr s)\<rparr>))
          gen sc cs)) \<noteq> 400) \<and>
     (q_query b = Some q \<and> js_truthy q \<and> \<not> template_throws q \<longrightarrow>
        (\<exists>rest. snd (query_POST environment (Inr (b\<lparr>q_fileSearchStoreNames := Some (JStr s)\<rparr>))
          gen sc cs) = GenerateContent q [JStr s] gen # rest)) \<and>
     (q_query b = Some q \<and> js_truthy q \<and> template_throws q \<longrightarrow>
        query_POST environment (Inr (b\<lparr>q_fileSearchStoreNames := Some (JStr s)\<rparr>)) gen sc cs =
          (json_error ''Cannot convert object to primitive value'' 500, [])) \<and>
     (\<not> truthy (q_query b) \<longrightarrow>
        query_POST environment (Inr (b\<lparr>q_fileSearchStoreNames := Some (JStr s)\<rparr>)) gen sc cs =
          (json_error ''Query is required'' 400, []))"
proof
  assume s: "s \<noteq> []"
  let ?b = "b\<lparr>q_fileSearchStoreNames := Some (JStr s)\<rparr>"
  have same: "query_POST environment (Inr ?b) gen sc cs =
     query_POST environment (Inr (b\<lparr>q_fileSearchStoreNames := Some (JArr [JStr s])\<rparr>)) gen sc cs"
    using s
    by (auto simp add: query_POST_def js_length_def storeNames_of_def
        split: option.splits sum.splits)
  have wrap: "storeNames_of (JStr s) = [JStr s]" "storeNames_of (JArr [JStr s]) = [JStr s]"
    by (simp_all add: storeNames_of_def)
  have names: "q_fileSearchStoreNames ?b = Some (JStr s)" "js_truthy (JStr s)"
    "js_length (JStr s) \<noteq> Some (JNum 0)"
    using s by (simp_all add: js_length_def)
  have accepted: "status (fst (query_POST environment (Inr ?b) gen sc cs)) \<noteq> 400"
    if "q_query b = Some q" "js_truthy q"
    using query_POST_accepted_status [of ?b q "JStr s" environment gen sc cs] that names
    by simp
  have call: "\<exists>rest. snd (query_POST environment (Inr ?b) gen sc cs) =
      GenerateContent q [JStr s] gen # rest"
    if "q_query b = Some q" "js_truthy q" "\<not> template_throws q"
    using query_POST_accepted_call [of ?b q "JStr s" environment gen sc cs] that names wrap
    by simp
  have thrown: "query_POST environment (Inr ?b) gen sc cs =
      (json_error ''Cannot convert object to primitive value'' 500, [])"
    if "q_query b = Some q" "js_truthy q" "template_throws q"
    using query_POST_unprintable [of ?b q "JStr s" environment gen sc cs] that names
    by simp
  have missing: "query_POST environment (Inr ?b) gen sc cs = (json_error ''Query is required'' 400, [])"
    if "\<not> truthy (q_query b)"
    using that by (auto simp add: query_POST_def truthy_def split: option.splits)
  from same wrap accepted call thrown missing
  show "query_POST environment (Inr ?b) gen sc cs =
     query_POST environment (Inr (b\<lparr>q_fileSearchStoreNames := Some (JArr [JStr s])\<rparr>)) gen sc cs \<and>
     storeNames_of (JStr s) = [JStr s] \<and> storeNames_of (JArr [JStr s]) = [JStr s] \<and>
     (q_query b = Some q \<and> js_truthy q \<longrightarrow>
        status (fst (query_POST environment (Inr ?b) gen sc cs)) \<noteq> 400) \<and>
     (q_query b = Some q \<and> js_truthy q \<and> \<not> template_throws q \<longrightarrow>
        (\<exists>rest. snd (query_POST environment (Inr ?b) gen sc cs) = GenerateContent q [JStr s] gen # rest)) \<and>
     (q_query b = Some q \<and> js_truthy q \<and> template_throws q \<longrightarrow>
        query_POST environment (Inr ?b) gen sc cs =
          (json_error ''Cannot convert object to primitive value'' 500, [])) \<and>
     (\<not> truthy (q_query b) \<longrightarrow>
        query_POST environment (Inr ?b) gen sc cs = (json_error ''Query is required'' 400, []))"
    by blast
qed

theorem scalar_store_name_is_wrapped_witness:
  "query_POST ex_env (Inr ex_query) (Inr ex_result) (Inl []) (Inl []) =
   query_POST ex_env (Inr (ex_query\<lparr>q_fileSearchStoreNames := Some (JArr [JStr ''stores/s1''])\<rparr>))
     (Inr ex_result) (Inl []) (Inl []) \<and>
   q_query ex_query = Some (JStr ''What is in the notes?'') \<and>
   q_fileSearchStoreNames ex_query = Some (JStr ''stores/s1'') \<and>
   \<not> template_throws (JStr ''What is in the notes?'') \<and>
   status (fst (query_POST ex_env (Inr ex_query) (Inr ex_result) (Inl []) (Inl []))) = 200 \<and>
   snd (query_POST ex_env (Inr ex_query) (Inr ex_result) (Inl []) (Inl [])) =
     [GenerateContent (JStr ''What is in the notes?'') [JStr ''stores/s1''] (Inr ex_result)] \<and>
   template_throws (JObj [(''toString'', JNum 1)]) \<and>
   query_POST ex_env (Inr ex_query_unprintable) (Inr ex_result) (Inl []) (Inl []) =
     (json_error ''Cannot convert object to primitive value'' 500, []) \<and>
   query_POST ex_env (Inr ex_query_missing) (Inr ex_result) (Inl []) (Inl []) =
     (json_error ''Query is required'' 400, [])"
proof -
  have same: "ex_query\<lparr>q_fileSearchStoreNames := Some (JStr ''stores/s1'')\<rparr> = ex_query"
    "ex_query_unprintable\<lparr>q_fileSearchStoreNames := Some (JStr ''stores/s1'')\<rparr> =
       ex_query_unprintable"
    "ex_query_missing\<lparr>q_fileSearchStoreNames := Some (JStr ''stores/s1'')\<rparr> = ex_query_missing"
    by (simp_all add: ex_query_def ex_query_unprintable_def ex_query_missing_def)
  have facts: "q_query ex_query = Some (JStr ''What is in the notes?'')"
    "q_fileSearchStoreNames ex_query = Some (JStr ''stores/s1'')"
    "\<not> template_throws (JStr ''What is in the notes?'')"
    by (simp_all add: ex_query_def)
  have unprintable: "q_query ex_query_unprintable = Some (JObj [(''toString'', JNum 1)])"
    "js_truthy (JObj [(''toString'', JNum 1)])" "template_throws (JObj [(''toString'', JNum 1)])"
    by (simp_all add: ex_query_def ex_query_unprintable_def)
  have missing: "\<not> truthy (q_query ex_query_missing)"
    by (simp add: ex_query_def ex_query_missing_def truthy_def)
  have name: "''stores/s1'' \<noteq> []" by simp
  have thrown: "query_POST ex_env (Inr ex_query_unprintable) (Inr ex_result) (Inl []) (Inl []) =
      (json_error ''Cannot convert object to primitive value'' 500, [])"
    using name unprintable
      scalar_store_name_is_wrapped [where s = "''stores/s1''" and b = ex_query_unprintable
        and environment = ex_env and gen = "Inr ex_result" and sc = "Inl []" and cs = "Inl []"
        and q = "JObj [(''toString'', JNum 1)]"]
    unfolding same by blast
  have required: "query_POST ex_env (Inr ex_query_missing) (Inr ex_result) (Inl []) (Inl []) =
      (json_error ''Query is required'' 400, [])"
    using name missing
      scalar_store_name_is_wrapped [where s = "''stores/s1''" and b = ex_query_missing
        and environment = ex_env and gen = "Inr ex_result" and sc = "Inl []" and cs = "Inl []"
        and q = "JNull"]
    unfolding same by blast
  show ?thesis
    using facts unprintable(3) thrown required
      scalar_store_name_is_wrapped [where s = "''stores/s1''" and b = ex_query
        and environment = ex_env and gen = "Inr ex_result" and sc = "Inl []" and cs = "Inl []"
        and q = "JStr ''What is in the notes?''"]
    by (simp add: same ex_query_run ex_query_array_run query_success_def)
qed

text \<open>
  As stated, C10 fails for two requests with a scalar store name: one whose query is an
  object with a \<^verbatim>\<open>toString\<close> member is answered 500 before the retrieval service is
  called, and one without a query is answered 400.
\<close>

theorem scalar_store_name_is_wrapped_counterexample:
  "q_fileSearchStoreNames ex_query_unprintable = Some (JStr ''stores/s1'') \<and>
   q_query ex_query_unprintable = Some (JObj [(''toString'', JNum 1)]) \<and>
   query_POST ex_env (Inr ex_query_unprintable) (Inr ex_result) (Inl []) (Inl []) =
     (json_error ''Cannot convert object to primitive value'' 500, []) \<and>
   q_fileSearchStoreNames ex_query_missing = Some (JStr ''stores/s1'') \<and>
   q_query ex_query_missing = None \<and>
   query_POST ex_env (Inr ex_query_missing) (Inr ex_result) (Inl []) (Inl []) =
     (json_error ''Query is required'' 400, [])"
proof -
  have "q_fileSearchStoreNames ex_query_unprintable = Some (JStr ''stores/s1'')"
    "q_query ex_query_unprintable = Some (JObj [(''toString'', JNum 1)])"
    "q_fileSearchStoreNames ex_query_missing = Some (JStr ''stores/s1'')"
    "q_query ex_query_missing = None"
    by (simp_all add: ex_query_def ex_query_unprintable_def ex_query_missing_def)
  then show ?thesis
    by (simp add: ex_query_unprintable_run ex_query_missing_run)
qed

end
